theory Spec2Isabelle
  imports Complex_Main
begin

section \<open>Dense fixed-size matrices\<close>

text \<open>
  The Eigen types of the source (\<open>Vector3\<close>, \<open>Matrix3\<close>, the 9x9 covariance and the
  9x9 \<open>Matrix F\<close>) are modelled as lists: a vector is the list of its coefficients, a
  matrix the list of its rows. Coefficients are real numbers and the operations of this
  section are exact; the rounded operations of \<open>double\<close> arithmetic follow in a section of
  their own. In the source the shape of every operand is
  fixed by its C++ type; here every operation takes the shape as arguments and builds
  a result of exactly that shape, reading its operands at the indices of that shape.
\<close>

type_synonym Vector3 = "real list"
type_synonym Matrix = "real list list"

definition mk_vec :: "nat \<Rightarrow> (nat \<Rightarrow> real) \<Rightarrow> real list" where
  "mk_vec n f = map f [0..<n]"

definition mk_mat :: "nat \<Rightarrow> nat \<Rightarrow> (nat \<Rightarrow> nat \<Rightarrow> real) \<Rightarrow> Matrix" where
  "mk_mat r c f = map (\<lambda>i. map (\<lambda>j. f i j) [0..<c]) [0..<r]"

definition is_mat :: "nat \<Rightarrow> nat \<Rightarrow> Matrix \<Rightarrow> bool" where
  "is_mat r c A \<longleftrightarrow> length A = r \<and> list_all (\<lambda>row. length row = c) A"

text \<open>\<open>M.setZero()\<close> on an r x c matrix.\<close>

definition setZero :: "nat \<Rightarrow> nat \<Rightarrow> Matrix" where
  "setZero r c = mk_mat r c (\<lambda>i j. 0)"

text \<open>\<open>v * x\<close> for a vector and a scalar.\<close>

definition vec_scale :: "nat \<Rightarrow> real list \<Rightarrow> real \<Rightarrow> real list" where
  "vec_scale n v x = mk_vec n (\<lambda>i. v ! i * x)"

text \<open>\<open>A * B\<close> for an r x n and an n x c matrix.\<close>

definition mat_mul :: "nat \<Rightarrow> nat \<Rightarrow> nat \<Rightarrow> Matrix \<Rightarrow> Matrix \<Rightarrow> Matrix" where
  "mat_mul r n c A B = mk_mat r c (\<lambda>i j. \<Sum>k<n. A ! i ! k * B ! k ! j)"

text \<open>\<open>A + B\<close>, \<open>-A\<close> and \<open>A * x\<close> (matrix times scalar) for r x c matrices.\<close>

definition mat_add :: "nat \<Rightarrow> nat \<Rightarrow> Matrix \<Rightarrow> Matrix \<Rightarrow> Matrix" where
  "mat_add r c A B = mk_mat r c (\<lambda>i j. A ! i ! j + B ! i ! j)"

definition mat_neg :: "nat \<Rightarrow> nat \<Rightarrow> Matrix \<Rightarrow> Matrix" where
  "mat_neg r c A = mk_mat r c (\<lambda>i j. - (A ! i ! j))"

definition mat_scale :: "nat \<Rightarrow> nat \<Rightarrow> Matrix \<Rightarrow> real \<Rightarrow> Matrix" where
  "mat_scale r c A x = mk_mat r c (\<lambda>i j. A ! i ! j * x)"

text \<open>\<open>A.transpose()\<close> of an r x c matrix (a c x r matrix).\<close>

definition mat_transpose :: "nat \<Rightarrow> nat \<Rightarrow> Matrix \<Rightarrow> Matrix" where
  "mat_transpose r c A = mk_mat c r (\<lambda>i j. A ! j ! i)"

text \<open>
  \<open>M.block<3,3>(r0,c0) = B\<close> on a 9x9 matrix: the 3x3 block whose top-left corner is
  \<open>(r0, c0)\<close> is overwritten with \<open>B\<close>, every other coefficient is kept.
\<close>

definition set_block33 :: "nat \<Rightarrow> nat \<Rightarrow> Matrix \<Rightarrow> Matrix \<Rightarrow> Matrix" where
  "set_block33 r0 c0 B M =
     mk_mat 9 9 (\<lambda>i j. if r0 \<le> i \<and> i < r0 + 3 \<and> c0 \<le> j \<and> j < c0 + 3
                        then B ! (i - r0) ! (j - c0) else M ! i ! j)"

text \<open>
  The comma initialiser \<open>M << B00, B01, B02, B10, ..., B22\<close> of a 9x9 matrix from nine
  3x3 blocks, given here as the three block rows.
\<close>

definition comma_blocks33 :: "Matrix list list \<Rightarrow> Matrix" where
  "comma_blocks33 bs = mk_mat 9 9 (\<lambda>i j. bs ! (i div 3) ! (j div 3) ! (i mod 3) ! (j mod 3))"

text \<open>
  Modelled from the spec: the constants \<open>I_3x3\<close> and \<open>Z_3x3\<close> are declared in a header
  that is not among the sources; the spec reads them as the identity and the zero block.
\<close>

definition I_3x3 :: Matrix where
  "I_3x3 = mk_mat 3 3 (\<lambda>i j. if i = j then 1 else 0)"

definition Z_3x3 :: Matrix where
  "Z_3x3 = mk_mat 3 3 (\<lambda>i j. 0)"

definition trace9 :: "Matrix \<Rightarrow> real" where
  "trace9 A = (\<Sum>i<9. A ! i ! i)"


section \<open>The collaborators of \<open>ImuFactor.cpp\<close>\<close>

text \<open>
  \<open>ImuFactor::PreintegratedMeasurements\<close> derives from \<open>PreintegrationBase\<close> and
  calls into the rotation library. Neither is among the sources, so the base-class
  sub-object is a value of an arbitrary type \<open>'b\<close>, a \<open>Rot3\<close> a value of type \<open>'r\<close>, a
  \<open>Pose3\<close> a value of type \<open>'p\<close>, an \<open>imuBias::ConstantBias\<close> a value of type \<open>'c\<close>, and
  every function that \<open>ImuFactor.cpp\<close> calls but does not define is a field of the
  record below. A member function of the base class that mutates the object takes the
  base-class state last and returns the new one; every call is taken to return.
\<close>

record ('b, 'r, 'p, 'c) collaborators =
  PreintegrationBase_ctor :: "'c \<Rightarrow> bool \<Rightarrow> 'b"
  PreintegrationBase_resetIntegration :: "'b \<Rightarrow> 'b"
  correctMeasurementsByBiasAndSensorPose ::
    "'b \<Rightarrow> Vector3 \<Rightarrow> Vector3 \<Rightarrow> 'p option \<Rightarrow> Vector3 \<times> Vector3"
  updatePreintegratedJacobians :: "Vector3 \<Rightarrow> Matrix \<Rightarrow> 'r \<Rightarrow> real \<Rightarrow> 'b \<Rightarrow> 'b"
  updatePreintegratedMeasurements :: "Vector3 \<Rightarrow> 'r \<Rightarrow> real \<Rightarrow> 'b \<Rightarrow> 'b"
  thetaRij :: "'b \<Rightarrow> Vector3"
  deltaRij :: "'b \<Rightarrow> Matrix"
  Rot3_Expmap :: "Vector3 \<Rightarrow> 'r"
  Rot3_inverse :: "'r \<Rightarrow> 'r"
  Rot3_matrix :: "'r \<Rightarrow> Matrix"
  rightJacobianExpMapSO3 :: "Vector3 \<Rightarrow> Matrix"
  rightJacobianExpMapSO3inverse :: "Vector3 \<Rightarrow> Matrix"
  skewSymmetric :: "Vector3 \<Rightarrow> Matrix"

section \<open>\<open>ImuFactor::PreintegratedMeasurements\<close>\<close>

text \<open>
  The object: the base-class sub-object and the two 9x9 members
  \<open>measurementCovariance_\<close> and \<open>preintMeasCov_\<close>.
\<close>

record 'b PreintegratedMeasurements =
  base :: 'b
  measurementCovariance :: Matrix
  preintMeasCov :: Matrix

text \<open>The constructor (lines 34-45).\<close>

definition PreintegratedMeasurements_ctor ::
  "('b, 'r, 'p, 'c) collaborators \<Rightarrow> 'c \<Rightarrow> Matrix \<Rightarrow> Matrix \<Rightarrow> Matrix \<Rightarrow> bool
     \<Rightarrow> 'b PreintegratedMeasurements" where
  "PreintegratedMeasurements_ctor lib bias measuredAccCovariance measuredOmegaCovariance
       integrationErrorCovariance use2ndOrderIntegration =
     (let m0 = setZero 9 9;
          m1 = set_block33 0 0 integrationErrorCovariance m0;
          m2 = set_block33 3 3 measuredAccCovariance m1;
          m3 = set_block33 6 6 measuredOmegaCovariance m2
      in \<lparr> base = PreintegrationBase_ctor lib bias use2ndOrderIntegration,
           measurementCovariance = m3,
           preintMeasCov = setZero 9 9 \<rparr>)"

text \<open>\<open>resetIntegration\<close> (lines 62-65).\<close>

definition resetIntegration ::
  "('b, 'r, 'p, 'c) collaborators \<Rightarrow> 'b PreintegratedMeasurements
     \<Rightarrow> 'b PreintegratedMeasurements" where
  "resetIntegration lib s =
     s\<lparr> base := PreintegrationBase_resetIntegration lib (base s),
        preintMeasCov := setZero 9 9 \<rparr>"

text \<open>
  \<open>integrateMeasurement\<close> (lines 68-133), in two parts. The first part is the body up to
  the assembly of \<open>F\<close> (lines 76-108); it returns the local variables of the source
  under their names, with the base-class state after each of the two mutating calls.
\<close>

record ('b, 'r) integrate_locals =
  correctedAcc :: Vector3
  correctedOmega :: Vector3
  theta_incr :: Vector3
  Rincr :: 'r
  Jr_theta_incr :: Matrix
  base_after_Jacobians :: 'b
  theta_i :: Vector3
  R_i :: Matrix
  Jr_theta_i :: Matrix
  base_after_Measurements :: 'b
  theta_j :: Vector3
  Jrinv_theta_j :: Matrix
  H_vel_angles :: Matrix
  H_angles_angles :: Matrix
  F :: Matrix

definition integrate_body ::
  "('b, 'r, 'p, 'c) collaborators \<Rightarrow> Vector3 \<Rightarrow> Vector3 \<Rightarrow> real \<Rightarrow> 'p option
     \<Rightarrow> 'b PreintegratedMeasurements \<Rightarrow> ('b, 'r) integrate_locals" where
  "integrate_body lib measuredAcc measuredOmega deltaT body_P_sensor s =
     (let (cAcc, cOmega) =
            correctMeasurementsByBiasAndSensorPose lib (base s) measuredAcc measuredOmega
              body_P_sensor;
          th_incr = vec_scale 3 cOmega deltaT;
          Ri = Rot3_Expmap lib th_incr;
          Jr_incr = rightJacobianExpMapSO3 lib th_incr;
          b1 = updatePreintegratedJacobians lib cAcc Jr_incr Ri deltaT (base s);
          th_i = thetaRij lib b1;
          R_i0 = deltaRij lib b1;
          Jr_i = rightJacobianExpMapSO3 lib th_i;
          b2 = updatePreintegratedMeasurements lib cAcc Ri deltaT b1;
          th_j = thetaRij lib b2;
          Jrinv_j = rightJacobianExpMapSO3inverse lib th_j;
          Hva = mat_scale 3 3
                  (mat_mul 3 3 3 (mat_mul 3 3 3 (mat_neg 3 3 R_i0) (skewSymmetric lib cAcc)) Jr_i)
                  deltaT;
          Haa = mat_mul 3 3 3
                  (mat_mul 3 3 3 Jrinv_j (Rot3_matrix lib (Rot3_inverse lib Ri))) Jr_i;
          Fm = comma_blocks33
                 [[I_3x3, mat_scale 3 3 I_3x3 deltaT, Z_3x3],
                  [Z_3x3, I_3x3, Hva],
                  [Z_3x3, Z_3x3, Haa]]
      in \<lparr> correctedAcc = cAcc, correctedOmega = cOmega, theta_incr = th_incr,
           Rincr = Ri, Jr_theta_incr = Jr_incr, base_after_Jacobians = b1,
           theta_i = th_i, R_i = R_i0, Jr_theta_i = Jr_i,
           base_after_Measurements = b2, theta_j = th_j, Jrinv_theta_j = Jrinv_j,
           H_vel_angles = Hva, H_angles_angles = Haa, F = Fm \<rparr>)"

text \<open>
  The second part is the covariance propagation and the two test outputs (lines
  110-132). \<open>F_test\<close> and \<open>G_test\<close> are optional references to matrices of the caller:
  the argument is the matrix referred to before the call, if one was supplied, and the
  second and third component of the result are these matrices after the call.
\<close>

definition integrateMeasurement ::
  "('b, 'r, 'p, 'c) collaborators \<Rightarrow> Vector3 \<Rightarrow> Vector3 \<Rightarrow> real \<Rightarrow> 'p option
     \<Rightarrow> Matrix option \<Rightarrow> Matrix option \<Rightarrow> 'b PreintegratedMeasurements
     \<Rightarrow> 'b PreintegratedMeasurements \<times> Matrix option \<times> Matrix option" where
  "integrateMeasurement lib measuredAcc measuredOmega deltaT body_P_sensor F_test G_test s =
     (let l = integrate_body lib measuredAcc measuredOmega deltaT body_P_sensor s;
          P = mat_add 9 9
                (mat_mul 9 9 9 (mat_mul 9 9 9 (F l) (preintMeasCov s)) (mat_transpose 9 9 (F l)))
                (mat_scale 9 9 (measurementCovariance s) deltaT);
          s' = s\<lparr> base := base_after_Measurements l, preintMeasCov := P \<rparr>;
          F_out = (case F_test of None \<Rightarrow> None | Some _ \<Rightarrow> Some (F l));
          G_out = (case G_test of None \<Rightarrow> None
                   | Some _ \<Rightarrow> Some (comma_blocks33
                       [[mat_scale 3 3 I_3x3 deltaT, Z_3x3, Z_3x3],
                        [Z_3x3, mat_scale 3 3 (R_i l) deltaT, Z_3x3],
                        [Z_3x3, Z_3x3,
                         mat_scale 3 3 (mat_mul 3 3 3 (Jrinv_theta_j l) (Jr_theta_incr l))
                           deltaT]]))
      in (s', F_out, G_out))"

text \<open>
  A use of the object after its construction is a sequence of calls of its two mutating
  member functions.
\<close>

datatype 'p call =
  IntegrateMeasurement Vector3 Vector3 real "'p option" "Matrix option" "Matrix option"
| ResetIntegration

fun do_call ::
  "('b, 'r, 'p, 'c) collaborators \<Rightarrow> 'b PreintegratedMeasurements \<Rightarrow> 'p call
     \<Rightarrow> 'b PreintegratedMeasurements" where
  "do_call lib s (IntegrateMeasurement a w dt sensor F_test G_test) =
     fst (integrateMeasurement lib a w dt sensor F_test G_test s)"
| "do_call lib s ResetIntegration = resetIntegration lib s"

definition run_calls ::
  "('b, 'r, 'p, 'c) collaborators \<Rightarrow> 'b PreintegratedMeasurements \<Rightarrow> 'p call list
     \<Rightarrow> 'b PreintegratedMeasurements" where
  "run_calls lib s cs = foldl (do_call lib) s cs"


section \<open>An instance of the collaborators: no rotation\<close>

text \<open>
  For evaluating the functions above on concrete inputs the collaborators are fixed to
  the answers they give while the body does not rotate: with a zero bias, no sensor pose
  and a zero gyroscope reading the measurements are returned uncorrected, \<open>Exp\<close> of the
  zero vector is the identity rotation, the right Jacobian and its inverse at the zero
  vector are the identity matrix, the accumulated rotation stays the identity matrix and
  its logarithm the zero vector; \<open>skewSymmetric\<close> is the cross-product matrix. The
  instance returns these answers for every argument, so it stands for the collaborators
  only on inputs with a zero gyroscope reading, and the examples below use no other.
  Its base-class state is the list of the mutating base-class calls made so far, oldest
  first.
\<close>

definition skew3 :: "Vector3 \<Rightarrow> Matrix" where
  "skew3 w = [[0, - (w ! 2), w ! 1],
              [w ! 2, 0, - (w ! 0)],
              [- (w ! 1), w ! 0, 0]]"

definition still_lib :: "(string list, Matrix, unit, Vector3 \<times> Vector3) collaborators" where
  "still_lib =
     \<lparr> PreintegrationBase_ctor = (\<lambda>bias use2nd. []),
       PreintegrationBase_resetIntegration = (\<lambda>b. b @ [''resetIntegration'']),
       correctMeasurementsByBiasAndSensorPose = (\<lambda>b a w sensor. (a, w)),
       updatePreintegratedJacobians =
         (\<lambda>a J R dt b. b @ [''updatePreintegratedJacobians'']),
       updatePreintegratedMeasurements =
         (\<lambda>a R dt b. b @ [''updatePreintegratedMeasurements'']),
       thetaRij = (\<lambda>b. [0, 0, 0]),
       deltaRij = (\<lambda>b. I_3x3),
       Rot3_Expmap = (\<lambda>v. I_3x3),
       Rot3_inverse = (\<lambda>R. mat_transpose 3 3 R),
       Rot3_matrix = (\<lambda>R. R),
       rightJacobianExpMapSO3 = (\<lambda>v. I_3x3),
       rightJacobianExpMapSO3inverse = (\<lambda>v. I_3x3),
       skewSymmetric = skew3 \<rparr>"


section \<open>The base class as the spec describes it\<close>

text \<open>
  Modelled from the spec: \<open>PreintegrationBase\<close> and its \<open>resetIntegration\<close> are not
  among the sources. The spec's data model gives the state: the 9-dimensional tangent
  state, the bias-sensitivity Jacobians (the derivative of the tangent state with
  respect to the six bias coefficients), the elapsed time, the bias (accelerometer and
  gyroscope part) and the flag for second-order integration. Of the reset the spec
  says that it "zeroes the TangentState, the covariance, and the bias-sensitivity
  Jacobians, beginning a new interval; it does not alter the bias or noise-model
  configuration", and of the whole measurement that it is "initialized to zero at
  interval start".
\<close>

record PreintegrationBase_spec =
  tangentState :: "real list"
  biasJacobians :: Matrix
  elapsedTime :: real
  biasHat :: "Vector3 \<times> Vector3"
  use2ndOrderIntegration :: bool

definition PreintegrationBase_resetIntegration_spec ::
  "PreintegrationBase_spec \<Rightarrow> PreintegrationBase_spec" where
  "PreintegrationBase_resetIntegration_spec b =
     b\<lparr> tangentState := mk_vec 9 (\<lambda>i. 0),
        biasJacobians := setZero 9 6,
        elapsedTime := 0 \<rparr>"

section \<open>Predicates and example objects\<close>

text \<open>A square matrix of size n is symmetric.\<close>

definition symmetric_mat :: "nat \<Rightarrow> Matrix \<Rightarrow> bool" where
  "symmetric_mat n A \<longleftrightarrow> (\<forall>i\<in>{..<n}. \<forall>j\<in>{..<n}. A ! i ! j = A ! j ! i)"

text \<open>The diagonal of a square matrix of size n has no negative coefficient.\<close>

definition nonneg_diagonal :: "nat \<Rightarrow> Matrix \<Rightarrow> bool" where
  "nonneg_diagonal n A \<longleftrightarrow> (\<forall>i\<in>{..<n}. 0 \<le> A ! i ! i)"

text \<open>
  An object constructed with zero bias and the identity matrix for each of the three
  covariances, and three calls of \<open>integrateMeasurement\<close> on it with a zero gyroscope
  reading and positive time steps.
\<close>

definition example_start :: "string list PreintegratedMeasurements" where
  "example_start =
     PreintegratedMeasurements_ctor still_lib ([0, 0, 0], [0, 0, 0]) I_3x3 I_3x3 I_3x3 False"

definition example_call1 :: "unit call" where
  "example_call1 = IntegrateMeasurement [0, 0, 0] [0, 0, 0] 4 None None None"

definition example_call2 :: "unit call" where
  "example_call2 = IntegrateMeasurement [0, 0, 10] [0, 0, 0] 1 None None None"

definition example_call3 :: "unit call" where
  "example_call3 = IntegrateMeasurement [0, 0, - 20] [0, 0, 0] (1 / 2) None None None"

text \<open>
  The 9x9 identity matrix, and the values of \<open>preintMeasCov_\<close> after the first, the
  second and the third of these calls.
\<close>

definition example_Q :: Matrix where
  "example_Q =
    [[1, 0, 0, 0, 0, 0, 0, 0, 0],
     [0, 1, 0, 0, 0, 0, 0, 0, 0],
     [0, 0, 1, 0, 0, 0, 0, 0, 0],
     [0, 0, 0, 1, 0, 0, 0, 0, 0],
     [0, 0, 0, 0, 1, 0, 0, 0, 0],
     [0, 0, 0, 0, 0, 1, 0, 0, 0],
     [0, 0, 0, 0, 0, 0, 1, 0, 0],
     [0, 0, 0, 0, 0, 0, 0, 1, 0],
     [0, 0, 0, 0, 0, 0, 0, 0, 1]]"

definition example_P1 :: Matrix where
  "example_P1 =
    [[4, 0, 0, 0, 0, 0, 0, 0, 0],
     [0, 4, 0, 0, 0, 0, 0, 0, 0],
     [0, 0, 4, 0, 0, 0, 0, 0, 0],
     [0, 0, 0, 4, 0, 0, 0, 0, 0],
     [0, 0, 0, 0, 4, 0, 0, 0, 0],
     [0, 0, 0, 0, 0, 4, 0, 0, 0],
     [0, 0, 0, 0, 0, 0, 4, 0, 0],
     [0, 0, 0, 0, 0, 0, 0, 4, 0],
     [0, 0, 0, 0, 0, 0, 0, 0, 4]]"

definition example_P2 :: Matrix where
  "example_P2 =
    [[9, 0, 0, 4, 0, 0, 0, 0, 0],
     [0, 9, 0, 0, 4, 0, 0, 0, 0],
     [0, 0, 9, 0, 0, 4, 0, 0, 0],
     [4, 0, 0, 405, 0, 0, 0, 40, 0],
     [0, 4, 0, 0, 405, 0, - 40, 0, 0],
     [0, 0, 4, 0, 0, 5, 0, 0, 0],
     [0, 0, 0, 0, - 40, 0, 5, 0, 0],
     [0, 0, 0, 40, 0, 0, 0, 5, 0],
     [0, 0, 0, 0, 0, 0, 0, 0, 5]]"

definition example_P3 :: Matrix where
  "example_P3 =
    [[459 / 4, 0, 0, 13 / 2, 0, 0, 0, 20, 0],
     [0, 459 / 4, 0, 0, 13 / 2, 0, - 20, 0, 0],
     [0, 0, 59 / 4, 0, 0, 13 / 2, 0, 0, 0],
     [13 / 2, 0, 0, 211 / 2, 0, 0, 0, - 10, 0],
     [0, 13 / 2, 0, 0, 211 / 2, 0, 10, 0, 0],
     [0, 0, 13 / 2, 0, 0, 11 / 2, 0, 0, 0],
     [0, - 20, 0, 0, 10, 0, 11 / 2, 0, 0],
     [20, 0, 0, - 10, 0, 0, 0, 11 / 2, 0],
     [0, 0, 0, 0, 0, 0, 0, 0, 11 / 2]]"

section \<open>The arithmetic of \<open>double\<close>\<close>

text \<open>
  The source computes in IEEE binary64. A \<open>double\<close> is modelled as the real number it
  denotes, and the result of an arithmetic operation as the exact result rounded to the
  nearest number with a 53-bit significand, ties to the even significand. The exponent
  range is not bounded here: overflow and gradual underflow are not modelled, and the
  values below stay far from both.

  \<open>round_half_even\<close> rounds to the nearest integer, ties to even. \<open>ulp_search\<close> looks for
  the power of two \<open>u\<close> with \<open>2^52 \<le> |x| / u < 2^53\<close>, the spacing of the doubles around
  \<open>x\<close>, starting from \<open>u\<close> and doubling or halving at most \<open>n\<close> times; \<open>round_double\<close>
  starts from 1 with 1100 steps, more than the exponent range of \<open>double\<close> needs.
\<close>

definition round_half_even :: "real \<Rightarrow> int" where
  "round_half_even z =
     (let f = \<lfloor>z\<rfloor>; d = z - of_int f
      in if d < 1 / 2 then f else if 1 / 2 < d then f + 1 else if even f then f else f + 1)"

fun ulp_search :: "nat \<Rightarrow> real \<Rightarrow> real \<Rightarrow> real" where
  "ulp_search 0 x u = u"
| "ulp_search (Suc n) x u =
     (if 2 ^ 53 \<le> \<bar>x\<bar> / u then ulp_search n x (u * 2)
      else if \<bar>x\<bar> / u < 2 ^ 52 then ulp_search n x (u / 2)
      else u)"

definition round_double :: "real \<Rightarrow> real" where
  "round_double x =
     (if x = 0 then 0
      else let u = ulp_search 1100 x 1 in of_int (round_half_even (x / u)) * u)"

text \<open>
  The matrix operations with every scalar operation rounded by \<open>rnd\<close>. A coefficient of
  a product is accumulated in the order of the summation index. Negation and
  transposition are exact.
\<close>

definition fl_dot :: "(real \<Rightarrow> real) \<Rightarrow> nat \<Rightarrow> (nat \<Rightarrow> real) \<Rightarrow> (nat \<Rightarrow> real) \<Rightarrow> real" where
  "fl_dot rnd n f g = foldl (\<lambda>acc k. rnd (acc + rnd (f k * g k))) 0 [0..<n]"

definition fl_vec_scale :: "(real \<Rightarrow> real) \<Rightarrow> nat \<Rightarrow> real list \<Rightarrow> real \<Rightarrow> real list" where
  "fl_vec_scale rnd n v x = mk_vec n (\<lambda>i. rnd (v ! i * x))"

definition fl_mat_mul ::
  "(real \<Rightarrow> real) \<Rightarrow> nat \<Rightarrow> nat \<Rightarrow> nat \<Rightarrow> Matrix \<Rightarrow> Matrix \<Rightarrow> Matrix" where
  "fl_mat_mul rnd r n c A B =
     mk_mat r c (\<lambda>i j. fl_dot rnd n (\<lambda>k. A ! i ! k) (\<lambda>k. B ! k ! j))"

definition fl_mat_add :: "(real \<Rightarrow> real) \<Rightarrow> nat \<Rightarrow> nat \<Rightarrow> Matrix \<Rightarrow> Matrix \<Rightarrow> Matrix" where
  "fl_mat_add rnd r c A B = mk_mat r c (\<lambda>i j. rnd (A ! i ! j + B ! i ! j))"

definition fl_mat_scale :: "(real \<Rightarrow> real) \<Rightarrow> nat \<Rightarrow> nat \<Rightarrow> Matrix \<Rightarrow> real \<Rightarrow> Matrix" where
  "fl_mat_scale rnd r c A x = mk_mat r c (\<lambda>i j. rnd (A ! i ! j * x))"

text \<open>
  \<open>integrateMeasurement\<close> (lines 68-133) once more, with the rounded operations in place
  of the exact ones and nothing else changed. The constructor and \<open>resetIntegration\<close>
  do no arithmetic.
\<close>

definition integrate_body_fl ::
  "(real \<Rightarrow> real) \<Rightarrow> ('b, 'r, 'p, 'c) collaborators \<Rightarrow> Vector3 \<Rightarrow> Vector3 \<Rightarrow> real
     \<Rightarrow> 'p option \<Rightarrow> 'b PreintegratedMeasurements \<Rightarrow> ('b, 'r) integrate_locals" where
  "integrate_body_fl rnd lib measuredAcc measuredOmega deltaT body_P_sensor s =
     (let (cAcc, cOmega) =
            correctMeasurementsByBiasAndSensorPose lib (base s) measuredAcc measuredOmega
              body_P_sensor;
          th_incr = fl_vec_scale rnd 3 cOmega deltaT;
          Ri = Rot3_Expmap lib th_incr;
          Jr_incr = rightJacobianExpMapSO3 lib th_incr;
          b1 = updatePreintegratedJacobians lib cAcc Jr_incr Ri deltaT (base s);
          th_i = thetaRij lib b1;
          R_i0 = deltaRij lib b1;
          Jr_i = rightJacobianExpMapSO3 lib th_i;
          b2 = updatePreintegratedMeasurements lib cAcc Ri deltaT b1;
          th_j = thetaRij lib b2;
          Jrinv_j = rightJacobianExpMapSO3inverse lib th_j;
          Hva = fl_mat_scale rnd 3 3
                  (fl_mat_mul rnd 3 3 3
                     (fl_mat_mul rnd 3 3 3 (mat_neg 3 3 R_i0) (skewSymmetric lib cAcc)) Jr_i)
                  deltaT;
          Haa = fl_mat_mul rnd 3 3 3
                  (fl_mat_mul rnd 3 3 3 Jrinv_j (Rot3_matrix lib (Rot3_inverse lib Ri))) Jr_i;
          Fm = comma_blocks33
                 [[I_3x3, fl_mat_scale rnd 3 3 I_3x3 deltaT, Z_3x3],
                  [Z_3x3, I_3x3, Hva],
                  [Z_3x3, Z_3x3, Haa]]
      in \<lparr> correctedAcc = cAcc, correctedOmega = cOmega, theta_incr = th_incr,
           Rincr = Ri, Jr_theta_incr = Jr_incr, base_after_Jacobians = b1,
           theta_i = th_i, R_i = R_i0, Jr_theta_i = Jr_i,
           base_after_Measurements = b2, theta_j = th_j, Jrinv_theta_j = Jrinv_j,
           H_vel_angles = Hva, H_angles_angles = Haa, F = Fm \<rparr>)"

definition integrateMeasurement_fl ::
  "(real \<Rightarrow> real) \<Rightarrow> ('b, 'r, 'p, 'c) collaborators \<Rightarrow> Vector3 \<Rightarrow> Vector3 \<Rightarrow> real
     \<Rightarrow> 'p option \<Rightarrow> Matrix option \<Rightarrow> Matrix option \<Rightarrow> 'b PreintegratedMeasurements
     \<Rightarrow> 'b PreintegratedMeasurements \<times> Matrix option \<times> Matrix option" where
  "integrateMeasurement_fl rnd lib measuredAcc measuredOmega deltaT body_P_sensor F_test G_test s =
     (let l = integrate_body_fl rnd lib measuredAcc measuredOmega deltaT body_P_sensor s;
          P = fl_mat_add rnd 9 9
                (fl_mat_mul rnd 9 9 9 (fl_mat_mul rnd 9 9 9 (F l) (preintMeasCov s))
                   (mat_transpose 9 9 (F l)))
                (fl_mat_scale rnd 9 9 (measurementCovariance s) deltaT);
          s' = s\<lparr> base := base_after_Measurements l, preintMeasCov := P \<rparr>;
          F_out = (case F_test of None \<Rightarrow> None | Some _ \<Rightarrow> Some (F l));
          G_out = (case G_test of None \<Rightarrow> None
                   | Some _ \<Rightarrow> Some (comma_blocks33
                       [[fl_mat_scale rnd 3 3 I_3x3 deltaT, Z_3x3, Z_3x3],
                        [Z_3x3, fl_mat_scale rnd 3 3 (R_i l) deltaT, Z_3x3],
                        [Z_3x3, Z_3x3,
                         fl_mat_scale rnd 3 3
                           (fl_mat_mul rnd 3 3 3 (Jrinv_theta_j l) (Jr_theta_incr l))
                           deltaT]]))
      in (s', F_out, G_out))"

fun do_call_fl ::
  "(real \<Rightarrow> real) \<Rightarrow> ('b, 'r, 'p, 'c) collaborators \<Rightarrow> 'b PreintegratedMeasurements
     \<Rightarrow> 'p call \<Rightarrow> 'b PreintegratedMeasurements" where
  "do_call_fl rnd lib s (IntegrateMeasurement a w dt sensor F_test G_test) =
     fst (integrateMeasurement_fl rnd lib a w dt sensor F_test G_test s)"
| "do_call_fl rnd lib s ResetIntegration = resetIntegration lib s"

definition run_calls_fl ::
  "(real \<Rightarrow> real) \<Rightarrow> ('b, 'r, 'p, 'c) collaborators \<Rightarrow> 'b PreintegratedMeasurements
     \<Rightarrow> 'p call list \<Rightarrow> 'b PreintegratedMeasurements" where
  "run_calls_fl rnd lib s cs = foldl (do_call_fl rnd lib) s cs"

text \<open>
  Three calls with a zero gyroscope reading and a time step of 1: the first with no
  acceleration, the second with \<open>2^27\<close> along the third axis, the third with \<open>-2^27\<close>.
  With the identity covariances of \<open>example_start\<close> every product that occurs is exact
  and no coefficient of a matrix product has more than two non-zero terms, so the
  values do not depend on the order of accumulation. The matrices are the values of
  \<open>preintMeasCov_\<close> after the second and the third call in the rounded arithmetic.
\<close>

definition rounding_call1 :: "unit call" where
  "rounding_call1 = IntegrateMeasurement [0, 0, 0] [0, 0, 0] 1 None None None"

definition rounding_call2 :: "unit call" where
  "rounding_call2 = IntegrateMeasurement [0, 0, 134217728] [0, 0, 0] 1 None None None"

definition rounding_call3 :: "unit call" where
  "rounding_call3 = IntegrateMeasurement [0, 0, - 134217728] [0, 0, 0] 1 None None None"

definition rounding_P2 :: Matrix where
  "rounding_P2 =
    [[3, 0, 0, 1, 0, 0, 0, 0, 0],
     [0, 3, 0, 0, 1, 0, 0, 0, 0],
     [0, 0, 3, 0, 0, 1, 0, 0, 0],
     [1, 0, 0, 18014398509481984, 0, 0, 0, 134217728, 0],
     [0, 1, 0, 0, 18014398509481984, 0, - 134217728, 0, 0],
     [0, 0, 1, 0, 0, 2, 0, 0, 0],
     [0, 0, 0, 0, - 134217728, 0, 2, 0, 0],
     [0, 0, 0, 134217728, 0, 0, 0, 2, 0],
     [0, 0, 0, 0, 0, 0, 0, 0, 2]]"

definition rounding_P3 :: Matrix where
  "rounding_P3 =
    [[18014398509481988, 0, 0, 0, 0, 0, 0, 134217728, 0],
     [0, 18014398509481988, 0, 0, 0, 0, - 134217728, 0, 0],
     [0, 0, 8, 0, 0, 3, 0, 0, 0],
     [1, 0, 0, 18014398509481984, 0, 0, 0, - 134217728, 0],
     [0, 1, 0, 0, 18014398509481984, 0, 134217728, 0, 0],
     [0, 0, 3, 0, 0, 3, 0, 0, 0],
     [0, - 134217728, 0, 0, 134217728, 0, 3, 0, 0],
     [134217728, 0, 0, - 134217728, 0, 0, 0, 3, 0],
     [0, 0, 0, 0, 0, 0, 0, 0, 3]]"

text \<open>The same after the second and the third call in exact arithmetic.\<close>

definition exact_P2 :: Matrix where
  "exact_P2 =
    [[3, 0, 0, 1, 0, 0, 0, 0, 0],
     [0, 3, 0, 0, 1, 0, 0, 0, 0],
     [0, 0, 3, 0, 0, 1, 0, 0, 0],
     [1, 0, 0, 18014398509481986, 0, 0, 0, 134217728, 0],
     [0, 1, 0, 0, 18014398509481986, 0, - 134217728, 0, 0],
     [0, 0, 1, 0, 0, 2, 0, 0, 0],
     [0, 0, 0, 0, - 134217728, 0, 2, 0, 0],
     [0, 0, 0, 134217728, 0, 0, 0, 2, 0],
     [0, 0, 0, 0, 0, 0, 0, 0, 2]]"

definition exact_P3 :: Matrix where
  "exact_P3 =
    [[18014398509481992, 0, 0, 3, 0, 0, 0, 134217728, 0],
     [0, 18014398509481992, 0, 0, 3, 0, - 134217728, 0, 0],
     [0, 0, 8, 0, 0, 3, 0, 0, 0],
     [3, 0, 0, 18014398509481987, 0, 0, 0, - 134217728, 0],
     [0, 3, 0, 0, 18014398509481987, 0, 134217728, 0, 0],
     [0, 0, 3, 0, 0, 3, 0, 0, 0],
     [0, - 134217728, 0, 0, 134217728, 0, 3, 0, 0],
     [134217728, 0, 0, - 134217728, 0, 0, 0, 3, 0],
     [0, 0, 0, 0, 0, 0, 0, 0, 3]]"

section \<open>Properties of the matrix operations\<close>

lemma length_mk_mat: "length (mk_mat r c f) = r"
  by (simp add: mk_mat_def)

lemma nth_mk_mat: "i < r \<Longrightarrow> j < c \<Longrightarrow> mk_mat r c f ! i ! j = f i j"
  by (simp add: mk_mat_def)

lemma is_mat_mk_mat: "is_mat r c (mk_mat r c f)"
  by (simp add: is_mat_def mk_mat_def list_all_iff)

lemma nth_setZero: "i < r \<Longrightarrow> j < c \<Longrightarrow> setZero r c ! i ! j = 0"
  by (simp add: setZero_def nth_mk_mat)

lemma nth_I_3x3: "i < 3 \<Longrightarrow> j < 3 \<Longrightarrow> I_3x3 ! i ! j = (if i = j then 1 else 0)"
  by (simp add: I_3x3_def nth_mk_mat)

lemma nth_Z_3x3: "i < 3 \<Longrightarrow> j < 3 \<Longrightarrow> Z_3x3 ! i ! j = 0"
  by (simp add: Z_3x3_def nth_mk_mat)

lemma nth_mat_mul:
  "i < r \<Longrightarrow> j < c \<Longrightarrow> mat_mul r n c A B ! i ! j = (\<Sum>k<n. A ! i ! k * B ! k ! j)"
  by (simp add: mat_mul_def nth_mk_mat)

lemma nth_mat_scale: "i < r \<Longrightarrow> j < c \<Longrightarrow> mat_scale r c A x ! i ! j = A ! i ! j * x"
  by (simp add: mat_scale_def nth_mk_mat)

lemma nth_mat_neg: "i < r \<Longrightarrow> j < c \<Longrightarrow> mat_neg r c A ! i ! j = - (A ! i ! j)"
  by (simp add: mat_neg_def nth_mk_mat)

lemma nth_mat_add:
  "i < r \<Longrightarrow> j < c \<Longrightarrow> mat_add r c A B ! i ! j = A ! i ! j + B ! i ! j"
  by (simp add: mat_add_def nth_mk_mat)

lemma nth_mat_transpose: "i < c \<Longrightarrow> j < r \<Longrightarrow> mat_transpose r c A ! i ! j = A ! j ! i"
  by (simp add: mat_transpose_def nth_mk_mat)

text \<open>The coefficient of a 9x9 matrix of blocks at block \<open>(p, q)\<close>, offset \<open>(i, j)\<close>.\<close>

lemma nth_comma_blocks33:
  assumes "p < 3" "q < 3" "i < 3" "j < 3"
  shows "comma_blocks33 bs ! (3 * p + i) ! (3 * q + j) = bs ! p ! q ! i ! j"
proof -
  have "3 * p + i < 9" "3 * q + j < 9"
    using assms by linarith+
  moreover have "(3 * p + i) div 3 = p" "(3 * p + i) mod 3 = i"
    "(3 * q + j) div 3 = q" "(3 * q + j) mod 3 = j"
    using assms by simp_all
  ultimately show ?thesis
    by (simp add: comma_blocks33_def nth_mk_mat)
qed

section \<open>Properties of the object\<close>

lemma nth_set_block33:
  "i < 9 \<Longrightarrow> j < 9 \<Longrightarrow>
   set_block33 r0 c0 B M ! i ! j =
     (if r0 \<le> i \<and> i < r0 + 3 \<and> c0 \<le> j \<and> j < c0 + 3 then B ! (i - r0) ! (j - c0)
      else M ! i ! j)"
  by (simp add: set_block33_def nth_mk_mat)

text \<open>The coefficients of \<open>measurementCovariance_\<close> after the constructor.\<close>

lemma ctor_measurementCovariance_nth:
  assumes "i < 9" "j < 9"
  shows "measurementCovariance
           (PreintegratedMeasurements_ctor lib bias accCov omegaCov intCov use2nd) ! i ! j =
         (if i < 3 \<and> j < 3 then intCov ! i ! j
          else if 3 \<le> i \<and> i < 6 \<and> 3 \<le> j \<and> j < 6 then accCov ! (i - 3) ! (j - 3)
          else if 6 \<le> i \<and> 6 \<le> j then omegaCov ! (i - 6) ! (j - 6)
          else 0)"
  using assms
  by (simp add: PreintegratedMeasurements_ctor_def Let_def nth_set_block33 nth_setZero)

lemma ctor_preintMeasCov:
  "preintMeasCov (PreintegratedMeasurements_ctor lib bias accCov omegaCov intCov use2nd) =
     setZero 9 9"
  by (simp add: PreintegratedMeasurements_ctor_def Let_def)

text \<open>No call changes \<open>measurementCovariance_\<close>.\<close>

lemma do_call_measurementCovariance:
  "measurementCovariance (do_call lib s c) = measurementCovariance s"
  by (cases c) (simp_all add: integrateMeasurement_def resetIntegration_def Let_def)

lemma run_calls_measurementCovariance:
  "measurementCovariance (run_calls lib s cs) = measurementCovariance s"
  unfolding run_calls_def
  by (induction cs arbitrary: s) (simp_all add: do_call_measurementCovariance)

text \<open>The coefficients of \<open>preintMeasCov_\<close> after one call of \<open>integrateMeasurement\<close>.\<close>

lemma integrate_preintMeasCov_nth:
  assumes "i < 9" "j < 9"
  shows "preintMeasCov (fst (integrateMeasurement lib a w dt sensor F_test G_test s)) ! i ! j =
         (\<Sum>m<9. (\<Sum>k<9. F (integrate_body lib a w dt sensor s) ! i ! k
                              * preintMeasCov s ! k ! m)
                   * F (integrate_body lib a w dt sensor s) ! j ! m)
         + measurementCovariance s ! i ! j * dt"
proof -
  let ?Fm = "F (integrate_body lib a w dt sensor s)"
  have "mat_mul 9 9 9 (mat_mul 9 9 9 ?Fm (preintMeasCov s)) (mat_transpose 9 9 ?Fm) ! i ! j =
        (\<Sum>m<9. (\<Sum>k<9. ?Fm ! i ! k * preintMeasCov s ! k ! m) * ?Fm ! j ! m)"
    using assms by (simp add: nth_mat_mul nth_mat_transpose)
  then show ?thesis
    using assms by (simp add: integrateMeasurement_def Let_def nth_mat_add nth_mat_scale)
qed

lemma nth_mat_mul3:
  assumes "i < 3" "j < 3"
  shows "mat_mul 3 3 3 (mat_mul 3 3 3 A B) C ! i ! j =
         (\<Sum>m<3. (\<Sum>k<3. A ! i ! k * B ! k ! m) * C ! m ! j)"
proof -
  have "mat_mul 3 3 3 (mat_mul 3 3 3 A B) C ! i ! j =
        (\<Sum>m<3. mat_mul 3 3 3 A B ! i ! m * C ! m ! j)"
    using assms by (simp add: nth_mat_mul)
  also have "\<dots> = (\<Sum>m<3. (\<Sum>k<3. A ! i ! k * B ! k ! m) * C ! m ! j)"
    using assms by (intro sum.cong refl) (simp add: nth_mat_mul)
  finally show ?thesis .
qed

text \<open>The matrix \<open>F\<close> of a call and the coefficients of its two computed blocks.\<close>

lemma integrate_body_F:
  "F (integrate_body lib a w dt sensor s) =
     comma_blocks33
       [[I_3x3, mat_scale 3 3 I_3x3 dt, Z_3x3],
        [Z_3x3, I_3x3, H_vel_angles (integrate_body lib a w dt sensor s)],
        [Z_3x3, Z_3x3, H_angles_angles (integrate_body lib a w dt sensor s)]]"
  by (simp add: integrate_body_def Let_def split_def)

lemma integrate_body_H_vel_angles_nth:
  assumes "i < 3" "j < 3"
  shows "H_vel_angles (integrate_body lib a w dt sensor s) ! i ! j =
         (\<Sum>m<3. (\<Sum>k<3. - (R_i (integrate_body lib a w dt sensor s) ! i ! k)
                     * skewSymmetric lib (correctedAcc (integrate_body lib a w dt sensor s)) ! k ! m)
                  * rightJacobianExpMapSO3 lib (theta_i (integrate_body lib a w dt sensor s)) ! m ! j)
         * dt"
proof -
  have "H_vel_angles (integrate_body lib a w dt sensor s) =
        mat_scale 3 3
          (mat_mul 3 3 3
            (mat_mul 3 3 3 (mat_neg 3 3 (R_i (integrate_body lib a w dt sensor s)))
               (skewSymmetric lib (correctedAcc (integrate_body lib a w dt sensor s))))
            (rightJacobianExpMapSO3 lib (theta_i (integrate_body lib a w dt sensor s)))) dt"
    by (simp add: integrate_body_def Let_def split_def)
  moreover have "(\<Sum>k<3. mat_neg 3 3 A ! i ! k * B ! k ! m) = (\<Sum>k<3. - (A ! i ! k) * B ! k ! m)"
    for A B m
    using assms by (intro sum.cong refl) (simp add: nth_mat_neg)
  ultimately show ?thesis
    using assms by (simp add: nth_mat_scale nth_mat_mul3)
qed

lemma integrate_body_H_angles_angles_nth:
  assumes "i < 3" "j < 3"
  shows "H_angles_angles (integrate_body lib a w dt sensor s) ! i ! j =
         (\<Sum>m<3. (\<Sum>k<3. rightJacobianExpMapSO3inverse lib
                          (theta_j (integrate_body lib a w dt sensor s)) ! i ! k
                     * Rot3_matrix lib
                          (Rot3_inverse lib (Rincr (integrate_body lib a w dt sensor s))) ! k ! m)
                  * rightJacobianExpMapSO3 lib (theta_i (integrate_body lib a w dt sensor s)) ! m ! j)"
proof -
  have "H_angles_angles (integrate_body lib a w dt sensor s) =
        mat_mul 3 3 3
          (mat_mul 3 3 3
             (rightJacobianExpMapSO3inverse lib (theta_j (integrate_body lib a w dt sensor s)))
             (Rot3_matrix lib (Rot3_inverse lib (Rincr (integrate_body lib a w dt sensor s)))))
          (rightJacobianExpMapSO3 lib (theta_i (integrate_body lib a w dt sensor s)))"
    by (simp add: integrate_body_def Let_def split_def)
  then show ?thesis
    using assms by (simp add: nth_mat_mul3)
qed

text \<open>Sums over the indices of a 3-vector and of a 9-vector, written out.\<close>

lemma sum_lt_3: "(\<Sum>k<3. f k) = f 0 + f 1 + f (2::nat)"
  by (simp add: eval_nat_numeral)

lemma sum_lt_9:
  "(\<Sum>k<9. f k) = f 0 + f 1 + f (2::nat) + f 3 + f 4 + f 5 + f 6 + f 7 + f 8"
  by (simp add: eval_nat_numeral)

lemma upt_0_3: "[0..<3] = [0, 1, 2]"
  by (simp add: upt_rec)

lemma upt_0_9: "[0..<9] = [0, 1, 2, 3, 4, 5, 6, 7, 8]"
  by (simp add: upt_rec)

section \<open>Symmetry\<close>



lemma symmetric_matI:
  "(\<And>i j. i < n \<Longrightarrow> j < n \<Longrightarrow> A ! i ! j = A ! j ! i) \<Longrightarrow> symmetric_mat n A"
  by (simp add: symmetric_mat_def)

lemma symmetric_matD: "symmetric_mat n A \<Longrightarrow> i < n \<Longrightarrow> j < n \<Longrightarrow> A ! i ! j = A ! j ! i"
  by (simp add: symmetric_mat_def)

lemma symmetric_setZero: "symmetric_mat n (setZero n n)"
  by (rule symmetric_matI) (simp add: nth_setZero)

lemma symmetric_I_3x3: "symmetric_mat 3 I_3x3"
  by (rule symmetric_matI) (simp add: nth_I_3x3)

lemma sandwich_sum_symmetric:
  fixes f g :: "nat \<Rightarrow> real" and P :: "nat \<Rightarrow> nat \<Rightarrow> real"
  assumes "\<And>k m. k < n \<Longrightarrow> m < n \<Longrightarrow> P k m = P m k"
  shows "(\<Sum>m<n. (\<Sum>k<n. f k * P k m) * g m) = (\<Sum>m<n. (\<Sum>k<n. g k * P k m) * f m)"
proof -
  have "(\<Sum>m<n. (\<Sum>k<n. f k * P k m) * g m) = (\<Sum>m<n. \<Sum>k<n. f k * P k m * g m)"
    by (simp add: sum_distrib_right)
  also have "\<dots> = (\<Sum>k<n. \<Sum>m<n. f k * P k m * g m)"
    by (rule sum.swap)
  also have "\<dots> = (\<Sum>k<n. \<Sum>m<n. g m * P m k * f k)"
    using assms by (intro sum.cong refl) (simp add: mult_ac)
  also have "\<dots> = (\<Sum>k<n. (\<Sum>m<n. g m * P m k) * f k)"
    by (simp add: sum_distrib_right)
  finally show ?thesis .
qed

lemma integrate_symmetric:
  assumes "symmetric_mat 9 (preintMeasCov s)" "symmetric_mat 9 (measurementCovariance s)"
  shows "symmetric_mat 9
           (preintMeasCov (fst (integrateMeasurement lib a w dt sensor F_test G_test s)))"
proof (rule symmetric_matI)
  fix i j :: nat
  assume ij: "i < 9" "j < 9"
  let ?Fm = "F (integrate_body lib a w dt sensor s)"
  have "(\<Sum>m<9. (\<Sum>k<9. ?Fm ! i ! k * preintMeasCov s ! k ! m) * ?Fm ! j ! m) =
        (\<Sum>m<9. (\<Sum>k<9. ?Fm ! j ! k * preintMeasCov s ! k ! m) * ?Fm ! i ! m)"
    by (rule sandwich_sum_symmetric) (rule symmetric_matD [OF assms(1)])
  moreover have "measurementCovariance s ! i ! j = measurementCovariance s ! j ! i"
    using assms(2) ij by (rule symmetric_matD)
  ultimately show "preintMeasCov (fst (integrateMeasurement lib a w dt sensor F_test G_test s)) ! i ! j =
        preintMeasCov (fst (integrateMeasurement lib a w dt sensor F_test G_test s)) ! j ! i"
    using ij by (simp add: integrate_preintMeasCov_nth)
qed

lemma ctor_symmetric:
  assumes "symmetric_mat 3 accCov" "symmetric_mat 3 omegaCov" "symmetric_mat 3 intCov"
  shows "symmetric_mat 9
           (measurementCovariance
              (PreintegratedMeasurements_ctor lib bias accCov omegaCov intCov use2nd))"
proof (rule symmetric_matI)
  fix i j :: nat
  assume ij: "i < 9" "j < 9"
  have "i < 3 \<Longrightarrow> j < 3 \<Longrightarrow> intCov ! i ! j = intCov ! j ! i"
    using assms(3) by (rule symmetric_matD)
  moreover have "3 \<le> i \<Longrightarrow> i < 6 \<Longrightarrow> 3 \<le> j \<Longrightarrow> j < 6 \<Longrightarrow>
      accCov ! (i - 3) ! (j - 3) = accCov ! (j - 3) ! (i - 3)"
    using symmetric_matD [OF assms(1), of "i - 3" "j - 3"] by auto
  moreover have "6 \<le> i \<Longrightarrow> 6 \<le> j \<Longrightarrow>
      omegaCov ! (i - 6) ! (j - 6) = omegaCov ! (j - 6) ! (i - 6)"
    using symmetric_matD [OF assms(2), of "i - 6" "j - 6"] ij by auto
  ultimately show "measurementCovariance
           (PreintegratedMeasurements_ctor lib bias accCov omegaCov intCov use2nd) ! i ! j =
        measurementCovariance
           (PreintegratedMeasurements_ctor lib bias accCov omegaCov intCov use2nd) ! j ! i"
    using ij by (simp add: ctor_measurementCovariance_nth)
qed

lemma do_call_symmetric:
  assumes "symmetric_mat 9 (preintMeasCov s)" "symmetric_mat 9 (measurementCovariance s)"
  shows "symmetric_mat 9 (preintMeasCov (do_call lib s c))"
proof (cases c)
  case (IntegrateMeasurement a w dt sensor F_test G_test)
  then show ?thesis
    using assms by (simp add: integrate_symmetric)
next
  case ResetIntegration
  then show ?thesis
    by (simp add: resetIntegration_def symmetric_setZero)
qed

lemma run_calls_symmetric:
  assumes "symmetric_mat 9 (preintMeasCov s)" "symmetric_mat 9 (measurementCovariance s)"
  shows "symmetric_mat 9 (preintMeasCov (run_calls lib s cs))"
  using assms unfolding run_calls_def
proof (induction cs arbitrary: s)
  case Nil
  then show ?case by simp
next
  case (Cons c cs)
  have "symmetric_mat 9 (preintMeasCov (do_call lib s c))"
    using Cons.prems by (rule do_call_symmetric)
  moreover have "symmetric_mat 9 (measurementCovariance (do_call lib s c))"
    using Cons.prems(2) by (simp add: do_call_measurementCovariance)
  ultimately show ?case
    using Cons.IH by simp
qed

section \<open>The covariance after a call, and its trace\<close>

lemma integrate_preintMeasCov:
  "preintMeasCov (fst (integrateMeasurement lib a w dt sensor F_test G_test s)) =
     mat_add 9 9
       (mat_mul 9 9 9
          (mat_mul 9 9 9 (F (integrate_body lib a w dt sensor s)) (preintMeasCov s))
          (mat_transpose 9 9 (F (integrate_body lib a w dt sensor s))))
       (mat_scale 9 9 (measurementCovariance s) dt)"
  by (simp add: integrateMeasurement_def Let_def)

lemma trace9_mat_add:
  "trace9 (mat_add 9 9 A B) = trace9 A + trace9 B"
proof -
  have "trace9 (mat_add 9 9 A B) = (\<Sum>i<9. A ! i ! i + B ! i ! i)"
    unfolding trace9_def by (intro sum.cong refl) (simp add: nth_mat_add)
  then show ?thesis
    by (simp add: trace9_def sum.distrib)
qed

lemma trace9_mat_scale: "trace9 (mat_scale 9 9 A x) = trace9 A * x"
proof -
  have "trace9 (mat_scale 9 9 A x) = (\<Sum>i<9. A ! i ! i * x)"
    unfolding trace9_def by (intro sum.cong refl) (simp add: nth_mat_scale)
  then show ?thesis
    by (simp add: trace9_def sum_distrib_right)
qed

lemma trace9_sandwich_zero:
  "trace9 (mat_mul 9 9 9 (mat_mul 9 9 9 A (setZero 9 9)) B) = 0"
proof -
  have "mat_mul 9 9 9 (mat_mul 9 9 9 A (setZero 9 9)) B ! i ! i = 0" if "i < 9" for i
  proof -
    have "mat_mul 9 9 9 A (setZero 9 9) ! i ! m = 0" if "m < 9" for m
      using \<open>i < 9\<close> that by (simp add: nth_mat_mul nth_setZero)
    then show ?thesis
      using that by (simp add: nth_mat_mul)
  qed
  then show ?thesis
    by (simp add: trace9_def)
qed

lemma trace9_setZero: "trace9 (setZero 9 9) = 0"
  by (simp add: trace9_def nth_setZero)

section \<open>Evaluation on the example\<close>


lemma still_lib_F:
  "F (integrate_body still_lib a w dt sensor s) =
     comma_blocks33
       [[I_3x3, mat_scale 3 3 I_3x3 dt, Z_3x3],
        [Z_3x3, I_3x3,
         mat_scale 3 3 (mat_mul 3 3 3 (mat_mul 3 3 3 (mat_neg 3 3 I_3x3) (skew3 a)) I_3x3) dt],
        [Z_3x3, Z_3x3, mat_mul 3 3 3 (mat_mul 3 3 3 I_3x3 (mat_transpose 3 3 I_3x3)) I_3x3]]"
  by (simp add: integrate_body_def Let_def still_lib_def)

lemmas mat_eval =
  comma_blocks33_def mat_add_def mat_scale_def mat_mul_def mat_neg_def mat_transpose_def
  set_block33_def setZero_def I_3x3_def Z_3x3_def skew3_def mk_mat_def upt_0_3 upt_0_9
  sum_lt_3 sum_lt_9

lemma example_start_measurementCovariance: "measurementCovariance example_start = example_Q"
  by (simp add: example_start_def PreintegratedMeasurements_ctor_def Let_def example_Q_def
      mat_eval)

lemma example_step1:
  assumes "preintMeasCov s = setZero 9 9" "measurementCovariance s = example_Q"
  shows "preintMeasCov (fst (integrateMeasurement still_lib [0, 0, 0] w 4 sensor F_test G_test s))
           = example_P1"
  unfolding integrate_preintMeasCov still_lib_F assms
  by (simp add: example_Q_def example_P1_def mat_eval)

lemma example_step2:
  assumes "preintMeasCov s = example_P1" "measurementCovariance s = example_Q"
  shows "preintMeasCov (fst (integrateMeasurement still_lib [0, 0, 10] w 1 sensor F_test G_test s))
           = example_P2"
  unfolding integrate_preintMeasCov still_lib_F assms
  by (simp add: example_Q_def example_P1_def example_P2_def mat_eval)

lemma example_step3:
  assumes "preintMeasCov s = example_P2" "measurementCovariance s = example_Q"
  shows "preintMeasCov
           (fst (integrateMeasurement still_lib [0, 0, - 20] w (1 / 2) sensor F_test G_test s))
           = example_P3"
  unfolding integrate_preintMeasCov still_lib_F assms
  by (simp add: example_Q_def example_P2_def example_P3_def mat_eval)

lemma example_run2:
  "preintMeasCov (run_calls still_lib example_start [example_call1, example_call2]) = example_P2"
  "measurementCovariance (run_calls still_lib example_start [example_call1, example_call2]) =
     example_Q"
proof -
  have P0: "preintMeasCov example_start = setZero 9 9"
    by (simp add: example_start_def ctor_preintMeasCov)
  note Q0 = example_start_measurementCovariance
  have P1: "preintMeasCov (do_call still_lib example_start example_call1) = example_P1"
    unfolding example_call1_def do_call.simps by (rule example_step1 [OF P0 Q0])
  have Q1: "measurementCovariance (do_call still_lib example_start example_call1) = example_Q"
    by (simp add: do_call_measurementCovariance Q0)
  have "preintMeasCov (do_call still_lib (do_call still_lib example_start example_call1)
          example_call2) = example_P2"
    unfolding example_call2_def do_call.simps by (rule example_step2 [OF P1 Q1])
  then show "preintMeasCov (run_calls still_lib example_start [example_call1, example_call2]) =
      example_P2"
    by (simp add: run_calls_def)
  show "measurementCovariance (run_calls still_lib example_start [example_call1, example_call2]) =
      example_Q"
    by (simp add: run_calls_measurementCovariance Q0)
qed

lemma example_F3:
  "F (integrate_body still_lib [0, 0, - 20] w (1 / 2) sensor s) =
     [[1, 0, 0, 1 / 2, 0, 0, 0, 0, 0],
      [0, 1, 0, 0, 1 / 2, 0, 0, 0, 0],
      [0, 0, 1, 0, 0, 1 / 2, 0, 0, 0],
      [0, 0, 0, 1, 0, 0, 0, - 10, 0],
      [0, 0, 0, 0, 1, 0, 10, 0, 0],
      [0, 0, 0, 0, 0, 1, 0, 0, 0],
      [0, 0, 0, 0, 0, 0, 1, 0, 0],
      [0, 0, 0, 0, 0, 0, 0, 1, 0],
      [0, 0, 0, 0, 0, 0, 0, 0, 1]]"
  unfolding still_lib_F by (simp add: mat_eval)

text \<open>
  The identity matrix, used as each of the three covariances of the example, is positive
  definite.
\<close>

lemma I_3x3_positive_definite:
  assumes "x \<noteq> 0 \<or> y \<noteq> 0 \<or> z \<noteq> 0"
  shows "0 < (\<Sum>i<3. \<Sum>j<3. [x, y, z] ! i * I_3x3 ! i ! j * [x, y, z] ! j)"
proof -
  have "(\<Sum>i<3. \<Sum>j<3. [x, y, z] ! i * I_3x3 ! i ! j * [x, y, z] ! j) = x * x + y * y + z * z"
    by (simp add: sum_lt_3 nth_I_3x3)
  moreover have "0 < x * x + y * y + z * z"
    using assms by (metis add_pos_nonneg add_nonneg_pos zero_le_square not_real_square_gt_zero add_nonneg_nonneg)
  ultimately show ?thesis
    by simp
qed

section \<open>The rounded operations\<close>

text \<open>Without rounding they are the exact operations.\<close>

lemma foldl_add_upt:
  "foldl (\<lambda>acc k. acc + h k) a [0..<n] = a + (\<Sum>k<n. h k)" for h :: "nat \<Rightarrow> real"
  by (induction n) simp_all

lemma fl_dot_exact: "fl_dot (\<lambda>x. x) n f g = (\<Sum>k<n. f k * g k)"
  by (simp add: fl_dot_def foldl_add_upt)

lemma fl_ops_exact:
  "fl_mat_mul (\<lambda>x. x) r n c A B = mat_mul r n c A B"
  "fl_mat_add (\<lambda>x. x) r c A B = mat_add r c A B"
  "fl_mat_scale (\<lambda>x. x) r c A y = mat_scale r c A y"
  "fl_vec_scale (\<lambda>x. x) m v y = vec_scale m v y"
  by (simp_all add: fl_mat_mul_def mat_mul_def fl_dot_exact fl_mat_add_def mat_add_def
      fl_mat_scale_def mat_scale_def fl_vec_scale_def vec_scale_def)

lemma integrate_body_fl_exact:
  "integrate_body_fl (\<lambda>x. x) lib a w dt sensor s = integrate_body lib a w dt sensor s"
  by (simp add: integrate_body_fl_def integrate_body_def fl_ops_exact)

lemma integrateMeasurement_fl_exact:
  "integrateMeasurement_fl (\<lambda>x. x) lib a w dt sensor F_test G_test s =
     integrateMeasurement lib a w dt sensor F_test G_test s"
  by (cases F_test; cases G_test)
    (simp_all add: integrateMeasurement_fl_def integrateMeasurement_def integrate_body_fl_exact
      fl_ops_exact)

text \<open>A rounded sum of products that are all zero is zero.\<close>

lemma fl_dot_zero:
  assumes "rnd 0 = 0" and "\<And>k. k < n \<Longrightarrow> f k * g k = 0"
  shows "fl_dot rnd n f g = 0"
proof -
  have "foldl (\<lambda>acc k. rnd (acc + rnd (f k * g k))) 0 [0..<m] = 0" if "m \<le> n" for m
    using that
  proof (induction m)
    case 0
    then show ?case by simp
  next
    case (Suc m)
    have "f m * g m = 0"
      using assms(2) [of m] Suc.prems by simp
    moreover have "foldl (\<lambda>acc k. rnd (acc + rnd (f k * g k))) 0 [0..<m] = 0"
      using Suc by simp
    ultimately show ?case
      using assms(1) by auto
  qed
  then show ?thesis
    by (simp add: fl_dot_def)
qed

lemma nth_fl_mat_mul:
  "i < r \<Longrightarrow> j < c \<Longrightarrow>
   fl_mat_mul rnd r n c A B ! i ! j = fl_dot rnd n (\<lambda>k. A ! i ! k) (\<lambda>k. B ! k ! j)"
  by (simp add: fl_mat_mul_def nth_mk_mat)

lemma nth_fl_mat_add:
  "i < r \<Longrightarrow> j < c \<Longrightarrow> fl_mat_add rnd r c A B ! i ! j = rnd (A ! i ! j + B ! i ! j)"
  by (simp add: fl_mat_add_def nth_mk_mat)

lemma nth_fl_mat_scale:
  "i < r \<Longrightarrow> j < c \<Longrightarrow> fl_mat_scale rnd r c A x ! i ! j = rnd (A ! i ! j * x)"
  by (simp add: fl_mat_scale_def nth_mk_mat)

lemma integrate_fl_preintMeasCov:
  "preintMeasCov (fst (integrateMeasurement_fl rnd lib a w dt sensor F_test G_test s)) =
     fl_mat_add rnd 9 9
       (fl_mat_mul rnd 9 9 9
          (fl_mat_mul rnd 9 9 9 (F (integrate_body_fl rnd lib a w dt sensor s)) (preintMeasCov s))
          (mat_transpose 9 9 (F (integrate_body_fl rnd lib a w dt sensor s))))
       (fl_mat_scale rnd 9 9 (measurementCovariance s) dt)"
  by (simp add: integrateMeasurement_fl_def Let_def)

text \<open>The first rounded call on a zero covariance.\<close>

lemma integrate_fl_from_zero_nth:
  assumes "rnd 0 = 0" "preintMeasCov s = setZero 9 9" "i < 9" "j < 9"
  shows "preintMeasCov (fst (integrateMeasurement_fl rnd lib a w dt sensor F_test G_test s)) ! i ! j
         = rnd (rnd (measurementCovariance s ! i ! j * dt))"
proof -
  let ?Fm = "F (integrate_body_fl rnd lib a w dt sensor s)"
  have FP: "fl_mat_mul rnd 9 9 9 ?Fm (setZero 9 9) ! i ! m = 0" if "m < 9" for m
    using that assms(1,3) by (simp add: nth_fl_mat_mul fl_dot_zero nth_setZero)
  have "fl_dot rnd 9 (\<lambda>k. fl_mat_mul rnd 9 9 9 ?Fm (setZero 9 9) ! i ! k)
          (\<lambda>k. mat_transpose 9 9 ?Fm ! k ! j) = 0"
    using assms(1) by (rule fl_dot_zero) (simp add: FP)
  then have "fl_mat_mul rnd 9 9 9 (fl_mat_mul rnd 9 9 9 ?Fm (setZero 9 9))
          (mat_transpose 9 9 ?Fm) ! i ! j = 0"
    using assms(3,4) by (simp add: nth_fl_mat_mul)
  then show ?thesis
    using assms by (simp add: integrate_fl_preintMeasCov nth_fl_mat_add nth_fl_mat_scale)
qed

lemma integrate_fl_from_zero_symmetric:
  assumes "rnd 0 = 0" "preintMeasCov s = setZero 9 9" "symmetric_mat 9 (measurementCovariance s)"
  shows "symmetric_mat 9
           (preintMeasCov (fst (integrateMeasurement_fl rnd lib a w dt sensor F_test G_test s)))"
proof (rule symmetric_matI)
  fix i j :: nat
  assume ij: "i < 9" "j < 9"
  have "measurementCovariance s ! i ! j = measurementCovariance s ! j ! i"
    using assms(3) ij by (rule symmetric_matD)
  then show "preintMeasCov (fst (integrateMeasurement_fl rnd lib a w dt sensor F_test G_test s))
        ! i ! j =
      preintMeasCov (fst (integrateMeasurement_fl rnd lib a w dt sensor F_test G_test s)) ! j ! i"
    using assms(1,2) ij by (simp add: integrate_fl_from_zero_nth)
qed

lemma do_call_fl_measurementCovariance:
  "measurementCovariance (do_call_fl rnd lib s c) = measurementCovariance s"
  by (cases c) (simp_all add: integrateMeasurement_fl_def resetIntegration_def Let_def)

lemma run_calls_fl_measurementCovariance:
  "measurementCovariance (run_calls_fl rnd lib s cs) = measurementCovariance s"
  unfolding run_calls_fl_def
  by (induction cs arbitrary: s) (simp_all add: do_call_fl_measurementCovariance)

section \<open>Rounding to \<open>double\<close>\<close>

text \<open>
  Where the spacing of the doubles around \<open>x\<close> is within \<open>n\<close> doublings or halvings of
  the starting value, \<open>ulp_search\<close> finds it. From 1, the 1100 steps of \<open>round_double\<close>
  reach every double: the spacings are the powers of two from \<open>2^-1074\<close> to \<open>2^971\<close>.
\<close>

lemma ulp_search_found:
  "2 ^ 52 \<le> \<bar>x\<bar> / u \<Longrightarrow> \<bar>x\<bar> / u < 2 ^ 53 \<Longrightarrow> ulp_search n x u = u"
  by (cases n) simp_all

lemma ulp_search_down:
  assumes "0 < u" "j \<le> n" "2 ^ 52 \<le> \<bar>x\<bar> / (u / 2 ^ j)" "\<bar>x\<bar> / (u / 2 ^ j) < 2 ^ 53"
  shows "ulp_search n x u = u / 2 ^ j"
  using assms
proof (induction j arbitrary: n u)
  case 0
  then show ?case
    by (simp add: ulp_search_found)
next
  case (Suc j)
  obtain m where n: "n = Suc m" and jm: "j \<le> m"
    using Suc.prems(2) by (cases n) simp_all
  define y where "y = \<bar>x\<bar> / u"
  have y: "0 \<le> y"
    using Suc.prems(1) by (simp add: y_def)
  have eq: "\<bar>x\<bar> / (u / 2 ^ Suc j) = y * 2 * 2 ^ j"
    by (simp add: y_def)
  have "y * 2 * 1 \<le> y * 2 * 2 ^ j"
    using y by (intro mult_left_mono) simp_all
  then have "y < 2 ^ 52"
    using Suc.prems(4) unfolding eq by simp
  then have small: "\<bar>x\<bar> / u < 2 ^ 52" "\<not> 2 ^ 53 \<le> \<bar>x\<bar> / u"
    by (simp_all add: y_def)
  have "ulp_search m x (u / 2) = u / 2 / 2 ^ j"
    using Suc.prems jm by (intro Suc.IH) (simp_all add: field_simps)
  then show ?case
    using small by (simp add: n)
qed

lemma ulp_search_up:
  assumes "0 < u" "j \<le> n" "2 ^ 52 \<le> \<bar>x\<bar> / (u * 2 ^ j)" "\<bar>x\<bar> / (u * 2 ^ j) < 2 ^ 53"
  shows "ulp_search n x u = u * 2 ^ j"
  using assms
proof (induction j arbitrary: n u)
  case 0
  then show ?case
    by (simp add: ulp_search_found)
next
  case (Suc j)
  obtain m where n: "n = Suc m" and jm: "j \<le> m"
    using Suc.prems(2) by (cases n) simp_all
  define y where "y = \<bar>x\<bar> / (u * 2 ^ Suc j)"
  have y: "0 \<le> y"
    using Suc.prems(1) by (simp add: y_def)
  have eq: "\<bar>x\<bar> / u = y * 2 * 2 ^ j"
    using Suc.prems(1) by (simp add: y_def)
  have le: "y * 2 * 1 \<le> y * 2 * 2 ^ j"
    using y by (intro mult_left_mono) simp_all
  have y52: "2 ^ 52 \<le> y"
    using Suc.prems(3) by (simp add: y_def)
  have "(2::real) ^ 53 = 2 ^ 52 * 2"
    by simp
  also have "\<dots> \<le> y * 2"
    using y52 by simp
  also have "\<dots> \<le> y * 2 * 2 ^ j"
    using le by simp
  finally have big: "2 ^ 53 \<le> \<bar>x\<bar> / u"
    unfolding eq .
  have "ulp_search m x (u * 2) = u * 2 * 2 ^ j"
    using Suc.prems jm by (intro Suc.IH) (simp_all add: field_simps)
  then show ?case
    using big by (simp add: n)
qed

text \<open>
  A number with a 53-bit significand is its own rounding, with the exponent anywhere in
  the range of \<open>double\<close>.
\<close>

lemma round_half_even_of_int: "round_half_even (of_int m) = m"
  by (simp add: round_half_even_def)

lemma round_double_representable_up:
  assumes "2 ^ 52 \<le> \<bar>m\<bar>" "\<bar>m\<bar> < 2 ^ 53" "j \<le> 1100"
  shows "round_double (of_int m * 2 ^ j) = of_int m * 2 ^ j"
proof -
  let ?x = "of_int m * 2 ^ j :: real"
  have m0: "m \<noteq> 0"
    using assms(1) by auto
  have q: "\<bar>?x\<bar> / (1 * 2 ^ j) = of_int \<bar>m\<bar>"
    by (simp add: abs_mult)
  have "(2::real) ^ 52 \<le> of_int \<bar>m\<bar>"
    using assms(1) by (metis of_int_le_iff of_int_numeral of_int_power)
  moreover have "of_int \<bar>m\<bar> < (2::real) ^ 53"
    using assms(2) by (metis of_int_less_iff of_int_numeral of_int_power)
  ultimately have "ulp_search 1100 ?x 1 = 1 * 2 ^ j"
    using assms(3) unfolding q [symmetric] by (intro ulp_search_up) simp_all
  then show ?thesis
    using m0 by (simp add: round_double_def round_half_even_of_int)
qed

lemma round_double_representable_down:
  assumes "2 ^ 52 \<le> \<bar>m\<bar>" "\<bar>m\<bar> < 2 ^ 53" "j \<le> 1100"
  shows "round_double (of_int m / 2 ^ j) = of_int m / 2 ^ j"
proof -
  let ?x = "of_int m / 2 ^ j :: real"
  have m0: "m \<noteq> 0"
    using assms(1) by auto
  have q: "\<bar>?x\<bar> / (1 / 2 ^ j) = of_int \<bar>m\<bar>"
    by (simp add: abs_mult)
  have "(2::real) ^ 52 \<le> of_int \<bar>m\<bar>"
    using assms(1) by (metis of_int_le_iff of_int_numeral of_int_power)
  moreover have "of_int \<bar>m\<bar> < (2::real) ^ 53"
    using assms(2) by (metis of_int_less_iff of_int_numeral of_int_power)
  ultimately have "ulp_search 1100 ?x 1 = 1 / 2 ^ j"
    using assms(3) unfolding q [symmetric] by (intro ulp_search_down) simp_all
  then show ?thesis
    using m0 by (simp add: round_double_def round_half_even_of_int)
qed

section \<open>Evaluation of the rounded example\<close>

text \<open>The values of \<open>round_double\<close> that occur in the example.\<close>

lemma round_double_0: "round_double 0 = 0"
  by (simp add: round_double_def)

lemma round_double_exact:
  "round_double 1 = 1" "round_double 2 = 2" "round_double 3 = 3" "round_double 4 = 4"
  "round_double 7 = 7" "round_double 8 = 8"
  "round_double 134217728 = 134217728" "round_double (- 134217728) = - 134217728"
  "round_double 268435456 = 268435456" "round_double (- 268435456) = - 268435456"
  "round_double 18014398509481984 = 18014398509481984"
  "round_double (- 18014398509481984) = - 18014398509481984"
  "round_double 18014398509481988 = 18014398509481988"
  using round_double_representable_down [of "2 ^ 52" 52]
    round_double_representable_down [of "2 ^ 52" 51]
    round_double_representable_down [of "3 * 2 ^ 51" 51]
    round_double_representable_down [of "2 ^ 52" 50]
    round_double_representable_down [of "7 * 2 ^ 50" 50]
    round_double_representable_down [of "2 ^ 52" 49]
    round_double_representable_down [of "2 ^ 52" 25]
    round_double_representable_down [of "- (2 ^ 52)" 25]
    round_double_representable_down [of "2 ^ 52" 24]
    round_double_representable_down [of "- (2 ^ 52)" 24]
    round_double_representable_up [of "2 ^ 52" 2]
    round_double_representable_up [of "- (2 ^ 52)" 2]
    round_double_representable_up [of "2 ^ 52 + 1" 2]
  by simp_all

lemma round_double_inexact:
  "round_double 18014398509481985 = 18014398509481984"
  "round_double 18014398509481989 = 18014398509481988"
  by code_simp+

lemma still_lib_F_fl:
  "F (integrate_body_fl rnd still_lib a w dt sensor s) =
     comma_blocks33
       [[I_3x3, fl_mat_scale rnd 3 3 I_3x3 dt, Z_3x3],
        [Z_3x3, I_3x3,
         fl_mat_scale rnd 3 3
           (fl_mat_mul rnd 3 3 3 (fl_mat_mul rnd 3 3 3 (mat_neg 3 3 I_3x3) (skew3 a)) I_3x3) dt],
        [Z_3x3, Z_3x3,
         fl_mat_mul rnd 3 3 3 (fl_mat_mul rnd 3 3 3 I_3x3 (mat_transpose 3 3 I_3x3)) I_3x3]]"
  by (simp add: integrate_body_fl_def Let_def still_lib_def)

lemmas fl_eval =
  fl_mat_mul_def fl_mat_add_def fl_mat_scale_def fl_dot_def
  round_double_0 round_double_exact round_double_inexact

lemma rounding_step1:
  assumes "preintMeasCov s = setZero 9 9" "measurementCovariance s = example_Q"
  shows "preintMeasCov
           (fst (integrateMeasurement_fl round_double still_lib [0, 0, 0] w 1 sensor F_test G_test s))
         = example_Q"
  unfolding integrate_fl_preintMeasCov still_lib_F_fl assms
  by (simp add: example_Q_def mat_eval fl_eval)

lemma rounding_step2:
  assumes "preintMeasCov s = example_Q" "measurementCovariance s = example_Q"
  shows "preintMeasCov
           (fst (integrateMeasurement_fl round_double still_lib [0, 0, 134217728] w 1 sensor
                   F_test G_test s))
         = rounding_P2"
  unfolding integrate_fl_preintMeasCov still_lib_F_fl assms
  by (simp add: example_Q_def rounding_P2_def mat_eval fl_eval)

lemma rounding_step3:
  assumes "preintMeasCov s = rounding_P2" "measurementCovariance s = example_Q"
  shows "preintMeasCov
           (fst (integrateMeasurement_fl round_double still_lib [0, 0, - 134217728] w 1 sensor
                   F_test G_test s))
         = rounding_P3"
  unfolding integrate_fl_preintMeasCov still_lib_F_fl assms
  by (simp add: example_Q_def rounding_P2_def rounding_P3_def mat_eval fl_eval)

lemma rounding_run3:
  "preintMeasCov (run_calls_fl round_double still_lib example_start
                    [rounding_call1, rounding_call2, rounding_call3]) = rounding_P3"
proof -
  have P0: "preintMeasCov example_start = setZero 9 9"
    by (simp add: example_start_def ctor_preintMeasCov)
  note Q0 = example_start_measurementCovariance
  let ?s1 = "do_call_fl round_double still_lib example_start rounding_call1"
  let ?s2 = "do_call_fl round_double still_lib ?s1 rounding_call2"
  have P1: "preintMeasCov ?s1 = example_Q"
    unfolding rounding_call1_def do_call_fl.simps by (rule rounding_step1 [OF P0 Q0])
  have Q1: "measurementCovariance ?s1 = example_Q"
    by (simp add: do_call_fl_measurementCovariance Q0)
  have P2: "preintMeasCov ?s2 = rounding_P2"
    unfolding rounding_call2_def do_call_fl.simps by (rule rounding_step2 [OF P1 Q1])
  have Q2: "measurementCovariance ?s2 = example_Q"
    by (simp add: do_call_fl_measurementCovariance Q0)
  have "preintMeasCov (do_call_fl round_double still_lib ?s2 rounding_call3) = rounding_P3"
    unfolding rounding_call3_def do_call_fl.simps by (rule rounding_step3 [OF P2 Q2])
  then show ?thesis
    by (simp add: run_calls_fl_def)
qed

text \<open>The same three calls in exact arithmetic.\<close>

lemma exact_step2:
  assumes "preintMeasCov s = example_Q" "measurementCovariance s = example_Q"
  shows "preintMeasCov
           (fst (integrateMeasurement still_lib [0, 0, 134217728] w 1 sensor F_test G_test s))
         = exact_P2"
  unfolding integrate_preintMeasCov still_lib_F assms
  by (simp add: example_Q_def exact_P2_def mat_eval)

lemma exact_step3:
  assumes "preintMeasCov s = exact_P2" "measurementCovariance s = example_Q"
  shows "preintMeasCov
           (fst (integrateMeasurement still_lib [0, 0, - 134217728] w 1 sensor F_test G_test s))
         = exact_P3"
  unfolding integrate_preintMeasCov still_lib_F assms
  by (simp add: example_Q_def exact_P2_def exact_P3_def mat_eval)

lemma exact_run3:
  "preintMeasCov (run_calls still_lib example_start
                    [rounding_call1, rounding_call2, rounding_call3]) = exact_P3"
proof -
  have P0: "preintMeasCov example_start = setZero 9 9"
    by (simp add: example_start_def ctor_preintMeasCov)
  note Q0 = example_start_measurementCovariance
  let ?s1 = "do_call still_lib example_start rounding_call1"
  let ?s2 = "do_call still_lib ?s1 rounding_call2"
  have "preintMeasCov
          (fst (integrateMeasurement still_lib [0, 0, 0] [0, 0, 0] 1 None None None example_start))
        = example_Q"
    unfolding integrate_preintMeasCov still_lib_F P0 Q0
    by (simp add: example_Q_def mat_eval)
  then have P1: "preintMeasCov ?s1 = example_Q"
    by (simp add: rounding_call1_def)
  have Q1: "measurementCovariance ?s1 = example_Q"
    by (simp add: do_call_measurementCovariance Q0)
  have P2: "preintMeasCov ?s2 = exact_P2"
    unfolding rounding_call2_def do_call.simps by (rule exact_step2 [OF P1 Q1])
  have Q2: "measurementCovariance ?s2 = example_Q"
    by (simp add: do_call_measurementCovariance Q0)
  have "preintMeasCov (do_call still_lib ?s2 rounding_call3) = exact_P3"
    unfolding rounding_call3_def do_call.simps by (rule exact_step3 [OF P2 Q2])
  then show ?thesis
    by (simp add: run_calls_def)
qed

lemma exact_run3_coefficients:
  "preintMeasCov (run_calls still_lib example_start
                    [rounding_call1, rounding_call2, rounding_call3]) ! 0 ! 3 = 3"
  "preintMeasCov (run_calls still_lib example_start
                    [rounding_call1, rounding_call2, rounding_call3]) ! 3 ! 0 = 3"
  by (simp_all add: exact_run3 exact_P3_def)

section \<open>Symmetry in exact arithmetic, for every call\<close>

lemma exact_covariance_symmetric:
  assumes "symmetric_mat 3 measuredAccCovariance"
    and "symmetric_mat 3 measuredOmegaCovariance"
    and "symmetric_mat 3 integrationErrorCovariance"
  shows "(let s0 = PreintegratedMeasurements_ctor lib bias measuredAccCovariance
                     measuredOmegaCovariance integrationErrorCovariance use2nd;
              s = run_calls lib s0 calls
          in symmetric_mat 9 (preintMeasCov s0) \<and>
             symmetric_mat 9 (preintMeasCov s) \<and>
             symmetric_mat 9 (preintMeasCov (resetIntegration lib s)) \<and>
             symmetric_mat 9
               (preintMeasCov (fst (integrateMeasurement lib a w dt sensor F_test G_test s))))"
proof -
  let ?init = "PreintegratedMeasurements_ctor lib bias measuredAccCovariance
               measuredOmegaCovariance integrationErrorCovariance use2nd"
  let ?st = "run_calls lib ?init calls"
  have P0: "symmetric_mat 9 (preintMeasCov ?init)"
    by (simp add: ctor_preintMeasCov symmetric_setZero)
  have Q0: "symmetric_mat 9 (measurementCovariance ?init)"
    using assms by (rule ctor_symmetric)
  have P: "symmetric_mat 9 (preintMeasCov ?st)"
    using P0 Q0 by (simp add: run_calls_symmetric)
  have Q: "symmetric_mat 9 (measurementCovariance ?st)"
    using Q0 by (simp add: run_calls_measurementCovariance)
  have "symmetric_mat 9 (preintMeasCov (resetIntegration lib ?st))"
    by (simp add: resetIntegration_def symmetric_setZero)
  moreover have "symmetric_mat 9
      (preintMeasCov (fst (integrateMeasurement lib a w dt sensor F_test G_test ?st)))"
    using P Q by (rule integrate_symmetric)
  ultimately show ?thesis
    using P0 P by (simp add: Let_def)
qed

section \<open>The claims\<close>

text \<open>
  Claim C1. Every call of \<open>integrateMeasurement\<close>, after any sequence of calls on a
  constructed object, replaces the accumulated 9x9 covariance \<open>P\<close> by
  \<open>F * P * F\<^sup>T + Q * dt\<close>: as a matrix, and coefficient by coefficient. \<open>Q\<close> is the
  matrix the constructor assembled, with the integration-error covariance at rows and
  columns 0-2, the accelerometer covariance at 3-5, the gyroscope covariance at 6-8 and
  zero elsewhere, and the call leaves \<open>Q\<close> as it is.
\<close>

theorem covariance_propagation:
  assumes "i < 9" "j < 9"
  shows "(let s = run_calls lib
                    (PreintegratedMeasurements_ctor lib bias measuredAccCovariance
                       measuredOmegaCovariance integrationErrorCovariance use2nd) calls;
              Fm = F (integrate_body lib a w dt sensor s);
              s' = fst (integrateMeasurement lib a w dt sensor F_test G_test s)
          in preintMeasCov s' =
               mat_add 9 9
                 (mat_mul 9 9 9 (mat_mul 9 9 9 Fm (preintMeasCov s)) (mat_transpose 9 9 Fm))
                 (mat_scale 9 9 (measurementCovariance s) dt) \<and>
             preintMeasCov s' ! i ! j =
               (\<Sum>m<9. (\<Sum>k<9. Fm ! i ! k * preintMeasCov s ! k ! m) * Fm ! j ! m)
               + measurementCovariance s ! i ! j * dt \<and>
             measurementCovariance s ! i ! j =
               (if i < 3 \<and> j < 3 then integrationErrorCovariance ! i ! j
                else if 3 \<le> i \<and> i < 6 \<and> 3 \<le> j \<and> j < 6
                  then measuredAccCovariance ! (i - 3) ! (j - 3)
                else if 6 \<le> i \<and> 6 \<le> j then measuredOmegaCovariance ! (i - 6) ! (j - 6)
                else 0) \<and>
             measurementCovariance s' = measurementCovariance s)"
proof -
  let ?init = "PreintegratedMeasurements_ctor lib bias measuredAccCovariance
                 measuredOmegaCovariance integrationErrorCovariance use2nd"
  let ?st = "run_calls lib ?init calls"
  let ?st' = "fst (integrateMeasurement lib a w dt sensor F_test G_test ?st)"
  let ?Fm = "F (integrate_body lib a w dt sensor ?st)"
  have c1: "preintMeasCov ?st' =
      mat_add 9 9
        (mat_mul 9 9 9 (mat_mul 9 9 9 ?Fm (preintMeasCov ?st)) (mat_transpose 9 9 ?Fm))
        (mat_scale 9 9 (measurementCovariance ?st) dt)"
    by (rule integrate_preintMeasCov)
  have c2: "preintMeasCov ?st' ! i ! j =
      (\<Sum>m<9. (\<Sum>k<9. ?Fm ! i ! k * preintMeasCov ?st ! k ! m) * ?Fm ! j ! m)
      + measurementCovariance ?st ! i ! j * dt"
    using assms by (rule integrate_preintMeasCov_nth)
  have c3: "measurementCovariance ?st ! i ! j =
      (if i < 3 \<and> j < 3 then integrationErrorCovariance ! i ! j
       else if 3 \<le> i \<and> i < 6 \<and> 3 \<le> j \<and> j < 6
         then measuredAccCovariance ! (i - 3) ! (j - 3)
       else if 6 \<le> i \<and> 6 \<le> j then measuredOmegaCovariance ! (i - 6) ! (j - 6)
       else 0)"
    unfolding run_calls_measurementCovariance
    using assms by (rule ctor_measurementCovariance_nth)
  have c4: "measurementCovariance ?st' = measurementCovariance ?st"
    by (simp add: integrateMeasurement_def Let_def)
  show ?thesis
    unfolding Let_def using c1 c2 c3 c4 by (intro conjI)
qed

text \<open>
  The theorem at row 3, column 7 of the third call of the example: the new coefficient is
  \<open>-10\<close>, and \<open>Q\<close> is zero there.
\<close>

theorem covariance_propagation_witness:
  "(3::nat) < 9 \<and> (7::nat) < 9 \<and>
   preintMeasCov
     (fst (integrateMeasurement still_lib [0, 0, - 20] [0, 0, 0] (1 / 2) None None None
             (run_calls still_lib example_start [example_call1, example_call2]))) ! 3 ! 7 = - 10 \<and>
   measurementCovariance (run_calls still_lib example_start [example_call1, example_call2]) ! 3 ! 7
     = 0"
proof -
  have a: "(3::nat) < 9" and b: "(7::nat) < 9"
    by simp_all
  note t = covariance_propagation [OF a b, where lib = still_lib
      and bias = "([0, 0, 0], [0, 0, 0])"
      and measuredAccCovariance = I_3x3 and measuredOmegaCovariance = I_3x3
      and integrationErrorCovariance = I_3x3 and use2nd = False
      and calls = "[example_call1, example_call2]" and a = "[0, 0, - 20]" and w = "[0, 0, 0]"
      and dt = "1 / 2" and sensor = None and F_test = None and G_test = None,
      folded example_start_def, unfolded Let_def]
  note e = t [THEN conjunct2, THEN conjunct1]
  note q = t [THEN conjunct2, THEN conjunct2, THEN conjunct1]
  have "preintMeasCov
      (fst (integrateMeasurement still_lib [0, 0, - 20] [0, 0, 0] (1 / 2) None None None
              (run_calls still_lib example_start [example_call1, example_call2]))) ! 3 ! 7 = - 10"
    unfolding e by (simp add: example_F3 example_run2 example_P2_def example_Q_def sum_lt_9)
  moreover have "measurementCovariance (run_calls still_lib example_start
      [example_call1, example_call2]) ! 3 ! 7 = 0"
    unfolding q by simp
  ultimately show ?thesis
    by simp
qed

text \<open>
  Claim C2. In every call of \<open>integrateMeasurement\<close> the transition matrix \<open>F\<close> has the
  block rows \<open>[I, I * dt, 0]\<close> (position), \<open>[0, I, - R_i * skew(correctedAcc) * Jr(theta_i) * dt]\<close>
  (velocity) and \<open>[0, 0, Jr_inverse(theta_j) * Rincr_inverse * Jr(theta_i)]\<close> (orientation),
  stated for the coefficient at offset \<open>(i, j)\<close> of each of the nine 3x3 blocks. \<open>F\<close> is a
  9x9 matrix, and it is what the call writes to \<open>F_test\<close> when that is supplied.
\<close>

theorem transition_matrix_blocks:
  assumes "i < 3" "j < 3"
  shows "(let l = integrate_body lib a w dt sensor s;
              S = skewSymmetric lib (correctedAcc l);
              Jr_i = rightJacobianExpMapSO3 lib (theta_i l);
              Jrinv_j = rightJacobianExpMapSO3inverse lib (theta_j l);
              Rincr_inv = Rot3_matrix lib (Rot3_inverse lib (Rincr l))
          in F l ! i ! j = (if i = j then 1 else 0) \<and>
             F l ! i ! (3 + j) = (if i = j then dt else 0) \<and>
             F l ! i ! (6 + j) = 0 \<and>
             F l ! (3 + i) ! j = 0 \<and>
             F l ! (3 + i) ! (3 + j) = (if i = j then 1 else 0) \<and>
             F l ! (3 + i) ! (6 + j) =
               (\<Sum>m<3. (\<Sum>k<3. - (R_i l ! i ! k) * S ! k ! m) * Jr_i ! m ! j) * dt \<and>
             F l ! (6 + i) ! j = 0 \<and>
             F l ! (6 + i) ! (3 + j) = 0 \<and>
             F l ! (6 + i) ! (6 + j) =
               (\<Sum>m<3. (\<Sum>k<3. Jrinv_j ! i ! k * Rincr_inv ! k ! m) * Jr_i ! m ! j) \<and>
             is_mat 9 9 (F l) \<and>
             fst (snd (integrateMeasurement lib a w dt sensor (Some X) G_test s)) = Some (F l))"
proof -
  note blk = nth_comma_blocks33 [OF _ _ assms]
  have b: "comma_blocks33 bs ! i ! j = bs ! 0 ! 0 ! i ! j"
    "comma_blocks33 bs ! i ! (3 + j) = bs ! 0 ! 1 ! i ! j"
    "comma_blocks33 bs ! i ! (6 + j) = bs ! 0 ! 2 ! i ! j"
    "comma_blocks33 bs ! (3 + i) ! j = bs ! 1 ! 0 ! i ! j"
    "comma_blocks33 bs ! (3 + i) ! (3 + j) = bs ! 1 ! 1 ! i ! j"
    "comma_blocks33 bs ! (3 + i) ! (6 + j) = bs ! 1 ! 2 ! i ! j"
    "comma_blocks33 bs ! (6 + i) ! j = bs ! 2 ! 0 ! i ! j"
    "comma_blocks33 bs ! (6 + i) ! (3 + j) = bs ! 2 ! 1 ! i ! j"
    "comma_blocks33 bs ! (6 + i) ! (6 + j) = bs ! 2 ! 2 ! i ! j" for bs
    using blk [of 0 0 bs] blk [of 0 1 bs] blk [of 0 2 bs]
      blk [of 1 0 bs] blk [of 1 1 bs] blk [of 1 2 bs]
      blk [of 2 0 bs] blk [of 2 1 bs] blk [of 2 2 bs]
    by simp_all
  have m: "is_mat 9 9 (F (integrate_body lib a w dt sensor s))"
    by (simp add: integrate_body_F comma_blocks33_def is_mat_mk_mat)
  have t: "fst (snd (integrateMeasurement lib a w dt sensor (Some X) G_test s)) =
           Some (F (integrate_body lib a w dt sensor s))"
    by (simp add: integrateMeasurement_def Let_def)
  show ?thesis
    unfolding Let_def
    using assms m t
    by (simp add: integrate_body_F b nth_I_3x3 nth_Z_3x3 nth_mat_scale
        integrate_body_H_vel_angles_nth integrate_body_H_angles_angles_nth)
qed

text \<open>
  The theorem at offset \<open>(0, 1)\<close> for an accelerometer reading \<open>(0, 0, -20)\<close> and
  \<open>dt = 1/2\<close> without rotation: the position-velocity block is zero off its diagonal, the
  velocity-orientation block has \<open>-10\<close> there, the orientation block zero.
\<close>

theorem transition_matrix_blocks_witness:
  "(0::nat) < 3 \<and> (1::nat) < 3 \<and>
   F (integrate_body still_lib [0, 0, - 20] [0, 0, 0] (1 / 2) None example_start) ! 0 ! 4 = 0 \<and>
   F (integrate_body still_lib [0, 0, - 20] [0, 0, 0] (1 / 2) None example_start) ! 3 ! 7 = - 10 \<and>
   F (integrate_body still_lib [0, 0, - 20] [0, 0, 0] (1 / 2) None example_start) ! 6 ! 7 = 0"
proof -
  have a: "(0::nat) < 3" and b: "(1::nat) < 3"
    by simp_all
  note t = transition_matrix_blocks [OF a b, where lib = still_lib and a = "[0, 0, - 20]"
      and w = "[0, 0, 0]" and dt = "1 / 2" and sensor = None and s = example_start,
      unfolded Let_def]
  note e1 = t [THEN conjunct2, THEN conjunct1]
  note e2 = t [THEN conjunct2, THEN conjunct2, THEN conjunct2, THEN conjunct2, THEN conjunct2,
      THEN conjunct1]
  note e3 = t [THEN conjunct2, THEN conjunct2, THEN conjunct2, THEN conjunct2, THEN conjunct2,
      THEN conjunct2, THEN conjunct2, THEN conjunct2, THEN conjunct1]
  have v: "R_i (integrate_body still_lib [0, 0, - 20] [0, 0, 0] (1 / 2) None example_start) = I_3x3"
    "correctedAcc (integrate_body still_lib [0, 0, - 20] [0, 0, 0] (1 / 2) None example_start) =
       [0, 0, - 20]"
    "Rincr (integrate_body still_lib [0, 0, - 20] [0, 0, 0] (1 / 2) None example_start) = I_3x3"
    by (simp_all add: integrate_body_def Let_def still_lib_def)
  have c: "skewSymmetric still_lib = skew3" "rightJacobianExpMapSO3 still_lib x = I_3x3"
    "rightJacobianExpMapSO3inverse still_lib x = I_3x3" "Rot3_matrix still_lib R = R"
    "Rot3_inverse still_lib R = mat_transpose 3 3 R" for x R
    by (simp_all add: still_lib_def)
  have "F (integrate_body still_lib [0, 0, - 20] [0, 0, 0] (1 / 2) None example_start) ! 0 ! 4 = 0"
    using e1 by simp
  moreover have "F (integrate_body still_lib [0, 0, - 20] [0, 0, 0] (1 / 2) None example_start)
      ! 3 ! 7 = - 10"
    using e2 by (simp add: v c sum_lt_3 nth_I_3x3 skew3_def)
  moreover have "F (integrate_body still_lib [0, 0, - 20] [0, 0, 0] (1 / 2) None example_start)
      ! 6 ! 7 = 0"
    using e3 by (simp add: v c sum_lt_3 nth_I_3x3 nth_mat_transpose)
  ultimately show ?thesis
    by simp
qed

text \<open>
  Claim C3. In every call of \<open>integrateMeasurement\<close> the bias-sensitivity Jacobians are
  updated first, from the base-class state as it is at entry, and the tangent state is
  advanced afterwards: the base-class state after the call is
  \<open>updatePreintegratedMeasurements\<close> applied to the result of
  \<open>updatePreintegratedJacobians\<close>. \<open>theta_i\<close> and \<open>R_i\<close> are read before the tangent state is
  advanced and \<open>theta_j\<close> after it; the velocity-orientation block of \<open>F\<close> is built from
  \<open>R_i\<close> and \<open>Jr(theta_i)\<close>, the orientation block from \<open>Jr_inverse(theta_j)\<close> and
  \<open>Jr(theta_i)\<close>. The transition matrix \<open>F\<close> is assembled from these two blocks, so its
  velocity-orientation block is computed from the rotation before the advance and its
  orientation block from the inverse right Jacobian at the rotation after it; this \<open>F\<close>
  is the one that propagates the covariance and that is written to \<open>F_test\<close>. On the
  instance that records the base-class calls, a call appends the Jacobian update and
  then the measurement update.
\<close>

theorem update_ordering:
  "(let l = integrate_body lib a w dt sensor s;
        b1 = updatePreintegratedJacobians lib (correctedAcc l) (Jr_theta_incr l) (Rincr l) dt
               (base s);
        b2 = updatePreintegratedMeasurements lib (correctedAcc l) (Rincr l) dt b1
    in base (fst (integrateMeasurement lib a w dt sensor F_test G_test s)) = b2 \<and>
       theta_i l = thetaRij lib b1 \<and>
       R_i l = deltaRij lib b1 \<and>
       theta_j l = thetaRij lib b2 \<and>
       H_vel_angles l =
         mat_scale 3 3
           (mat_mul 3 3 3
              (mat_mul 3 3 3 (mat_neg 3 3 (deltaRij lib b1)) (skewSymmetric lib (correctedAcc l)))
              (rightJacobianExpMapSO3 lib (thetaRij lib b1))) dt \<and>
       H_angles_angles l =
         mat_mul 3 3 3
           (mat_mul 3 3 3 (rightJacobianExpMapSO3inverse lib (thetaRij lib b2))
              (Rot3_matrix lib (Rot3_inverse lib (Rincr l))))
           (rightJacobianExpMapSO3 lib (thetaRij lib b1)) \<and>
       F l =
         comma_blocks33
           [[I_3x3, mat_scale 3 3 I_3x3 dt, Z_3x3],
            [Z_3x3, I_3x3,
             mat_scale 3 3
               (mat_mul 3 3 3
                  (mat_mul 3 3 3 (mat_neg 3 3 (deltaRij lib b1))
                     (skewSymmetric lib (correctedAcc l)))
                  (rightJacobianExpMapSO3 lib (thetaRij lib b1))) dt],
            [Z_3x3, Z_3x3,
             mat_mul 3 3 3
               (mat_mul 3 3 3 (rightJacobianExpMapSO3inverse lib (thetaRij lib b2))
                  (Rot3_matrix lib (Rot3_inverse lib (Rincr l))))
               (rightJacobianExpMapSO3 lib (thetaRij lib b1))]] \<and>
       preintMeasCov (fst (integrateMeasurement lib a w dt sensor F_test G_test s)) =
         mat_add 9 9
           (mat_mul 9 9 9 (mat_mul 9 9 9 (F l) (preintMeasCov s)) (mat_transpose 9 9 (F l)))
           (mat_scale 9 9 (measurementCovariance s) dt) \<and>
       fst (snd (integrateMeasurement lib a w dt sensor (Some X) G_test s)) = Some (F l)) \<and>
   base (fst (integrateMeasurement still_lib a' w' dt' sensor' F_test' G_test' s')) =
     base s' @ [''updatePreintegratedJacobians'', ''updatePreintegratedMeasurements'']"
  by (simp add: integrateMeasurement_def integrate_body_def Let_def split_def still_lib_def)

text \<open>
  Claim C5, as amended. For \<open>dt \<ge> 0\<close> and a \<open>measurementCovariance_\<close> with a non-negative
  diagonal, a call of \<open>integrateMeasurement\<close> makes the trace of \<open>P\<close> the trace of the
  propagated covariance \<open>F * P * F\<^sup>T\<close> plus \<open>trace(Q) * dt\<close>, so it is at least the trace
  of the propagated covariance; when \<open>P\<close> is zero, as after construction or
  \<open>resetIntegration\<close>, the trace of \<open>P\<close> does not decrease.
\<close>

theorem trace_after_integrateMeasurement:
  assumes "0 \<le> dt" and "nonneg_diagonal 9 (measurementCovariance s)"
  shows "(let Fm = F (integrate_body lib a w dt sensor s);
              propagated = mat_mul 9 9 9 (mat_mul 9 9 9 Fm (preintMeasCov s)) (mat_transpose 9 9 Fm);
              s' = fst (integrateMeasurement lib a w dt sensor F_test G_test s)
          in trace9 (preintMeasCov s') = trace9 propagated + trace9 (measurementCovariance s) * dt \<and>
             trace9 propagated \<le> trace9 (preintMeasCov s') \<and>
             (preintMeasCov s = setZero 9 9 \<longrightarrow>
                trace9 (preintMeasCov s) \<le> trace9 (preintMeasCov s')))"
proof -
  have "0 \<le> trace9 (measurementCovariance s)"
    unfolding trace9_def using assms(2) by (intro sum_nonneg) (simp add: nonneg_diagonal_def)
  then have "0 \<le> trace9 (measurementCovariance s) * dt"
    using assms(1) by simp
  then show ?thesis
    by (simp add: Let_def integrate_preintMeasCov trace9_mat_add trace9_mat_scale
        trace9_sandwich_zero trace9_setZero)
qed

text \<open>
  The theorem at the first call of the example, on the constructed object with \<open>dt = 4\<close>.
\<close>

theorem trace_after_integrateMeasurement_witness:
  "(0::real) \<le> 4 \<and> nonneg_diagonal 9 (measurementCovariance example_start) \<and>
   preintMeasCov example_start = setZero 9 9 \<and>
   trace9 (preintMeasCov example_start)
     \<le> trace9 (preintMeasCov
          (fst (integrateMeasurement still_lib [0, 0, 0] [0, 0, 0] 4 None None None
                  example_start)))"
proof -
  have a: "(0::real) \<le> 4" by simp
  have b: "nonneg_diagonal 9 (measurementCovariance example_start)"
    by (simp add: nonneg_diagonal_def example_start_measurementCovariance example_Q_def
        eval_nat_numeral lessThan_Suc)
  have c: "preintMeasCov example_start = setZero 9 9"
    by (simp add: example_start_def ctor_preintMeasCov)
  from trace_after_integrateMeasurement [OF a b, of still_lib "[0, 0, 0]" "[0, 0, 0]" None
      None None] a b c
  show ?thesis
    unfolding Let_def by blast
qed

text \<open>
  Claim C5 as stated fails: with the identity matrix (positive definite) for each
  covariance and positive time steps 4, 1 and 1/2, the trace of \<open>P\<close> is 857 after the
  second call of the example and 1909/4 after the third.
\<close>

theorem trace_decreases_counterexample:
  "\<not> trace9 (preintMeasCov (run_calls still_lib example_start [example_call1, example_call2]))
      \<le> trace9 (preintMeasCov
            (run_calls still_lib example_start [example_call1, example_call2, example_call3]))"
proof -
  have "run_calls still_lib example_start [example_call1, example_call2, example_call3] =
      fst (integrateMeasurement still_lib [0, 0, - 20] [0, 0, 0] (1 / 2) None None None
             (run_calls still_lib example_start [example_call1, example_call2]))"
    by (simp add: run_calls_def example_call3_def)
  then have "trace9 (preintMeasCov
      (run_calls still_lib example_start [example_call1, example_call2, example_call3])) =
      1909 / 4"
    by (simp add: example_step3 [OF example_run2] example_P3_def trace9_def sum_lt_9)
  moreover have "trace9 (preintMeasCov
      (run_calls still_lib example_start [example_call1, example_call2])) = 857"
    by (simp add: example_run2 example_P2_def trace9_def sum_lt_9)
  ultimately show ?thesis
    by simp
qed

text \<open>
  Claim C6, as amended. If the three configured covariances are symmetric, the accumulated
  covariance \<open>P\<close> is symmetric after construction, after \<open>resetIntegration\<close> and after the
  first \<open>integrateMeasurement\<close> that follows either of them, in the rounded arithmetic
  (for every rounding that takes zero to zero). When \<open>F * P * F\<^sup>T + Q * dt\<close> is
  evaluated exactly, \<open>P\<close> is symmetric after every call: the propagation formula preserves
  symmetry.
\<close>

theorem covariance_symmetry:
  assumes "symmetric_mat 3 measuredAccCovariance"
    and "symmetric_mat 3 measuredOmegaCovariance"
    and "symmetric_mat 3 integrationErrorCovariance"
    and "rnd 0 = 0"
  shows "(let s0 = PreintegratedMeasurements_ctor lib bias measuredAccCovariance
                     measuredOmegaCovariance integrationErrorCovariance use2nd;
              s = run_calls_fl rnd lib s0 calls;
              sr = resetIntegration lib s;
              e = run_calls lib s0 calls
          in symmetric_mat 9 (preintMeasCov s0) \<and>
             symmetric_mat 9 (preintMeasCov sr) \<and>
             symmetric_mat 9
               (preintMeasCov
                  (fst (integrateMeasurement_fl rnd lib a w dt sensor F_test G_test s0))) \<and>
             symmetric_mat 9
               (preintMeasCov
                  (fst (integrateMeasurement_fl rnd lib a w dt sensor F_test G_test sr))) \<and>
             symmetric_mat 9 (preintMeasCov e) \<and>
             symmetric_mat 9 (preintMeasCov (resetIntegration lib e)) \<and>
             symmetric_mat 9
               (preintMeasCov (fst (integrateMeasurement lib a w dt sensor F_test G_test e))))"
proof -
  let ?init = "PreintegratedMeasurements_ctor lib bias measuredAccCovariance
                 measuredOmegaCovariance integrationErrorCovariance use2nd"
  let ?st = "run_calls_fl rnd lib ?init calls"
  let ?reset = "resetIntegration lib ?st"
  have P0: "preintMeasCov ?init = setZero 9 9"
    by (rule ctor_preintMeasCov)
  have Q0: "symmetric_mat 9 (measurementCovariance ?init)"
    using assms(1,2,3) by (rule ctor_symmetric)
  have Pr: "preintMeasCov ?reset = setZero 9 9"
    by (simp add: resetIntegration_def)
  have Qr: "symmetric_mat 9 (measurementCovariance ?reset)"
    using Q0 by (simp add: resetIntegration_def run_calls_fl_measurementCovariance)
  have "symmetric_mat 9
      (preintMeasCov (fst (integrateMeasurement_fl rnd lib a w dt sensor F_test G_test ?init)))"
    using assms(4) P0 Q0 by (rule integrate_fl_from_zero_symmetric)
  moreover have "symmetric_mat 9
      (preintMeasCov (fst (integrateMeasurement_fl rnd lib a w dt sensor F_test G_test ?reset)))"
    using assms(4) Pr Qr by (rule integrate_fl_from_zero_symmetric)
  moreover note exact_covariance_symmetric [OF assms(1,2,3), of lib bias use2nd calls a w dt
      sensor F_test G_test, unfolded Let_def]
  ultimately show ?thesis
    by (simp add: Let_def P0 Pr symmetric_setZero)
qed

text \<open>
  The theorem for the identity covariances and the rounding of \<open>double\<close>: the first
  rounded call on the constructed object of the example, and an exact call after two.
\<close>

theorem covariance_symmetry_witness:
  "symmetric_mat 3 I_3x3 \<and> round_double 0 = 0 \<and>
   symmetric_mat 9
     (preintMeasCov
        (fst (integrateMeasurement_fl round_double still_lib [0, 0, 134217728] [0, 0, 0] 1 None
                None None example_start))) \<and>
   symmetric_mat 9
     (preintMeasCov
        (fst (integrateMeasurement still_lib [0, 0, 134217728] [0, 0, 0] 1 None None None
                (run_calls still_lib example_start [rounding_call1, rounding_call2]))))"
proof -
  note h = symmetric_I_3x3
  note z = round_double_0
  note t = covariance_symmetry [where rnd = round_double and lib = still_lib
      and bias = "([0, 0, 0], [0, 0, 0])" and use2nd = False
      and calls = "[rounding_call1, rounding_call2]" and a = "[0, 0, 134217728]"
      and w = "[0, 0, 0]" and dt = 1 and sensor = None and F_test = None and G_test = None,
      OF h h h z, folded example_start_def, unfolded Let_def]
  note t1 = t [THEN conjunct2, THEN conjunct2, THEN conjunct1]
  note t2 = t [THEN conjunct2, THEN conjunct2, THEN conjunct2, THEN conjunct2, THEN conjunct2,
      THEN conjunct2]
  show ?thesis
    using h z t1 t2 by (intro conjI)
qed

text \<open>
  Claim C6 as stated fails in the arithmetic of \<open>double\<close>: with the identity matrix for each
  covariance, after the three calls of the rounded example the coefficient of \<open>P\<close> at row
  0, column 3 is 0 and the coefficient at row 3, column 0 is 1. In exact arithmetic both
  are 3 (\<open>exact_run3_coefficients\<close>): the sum \<open>1 + 2^54\<close> is rounded to \<open>2^54\<close> on the way to
  the first and does not occur on the way to the second.
\<close>

theorem rounded_covariance_asymmetric_counterexample:
  "symmetric_mat 3 I_3x3 \<and>
   preintMeasCov (run_calls_fl round_double still_lib example_start
                    [rounding_call1, rounding_call2, rounding_call3]) ! 0 ! 3 = 0 \<and>
   preintMeasCov (run_calls_fl round_double still_lib example_start
                    [rounding_call1, rounding_call2, rounding_call3]) ! 3 ! 0 = 1 \<and>
   \<not> symmetric_mat 9
       (preintMeasCov (run_calls_fl round_double still_lib example_start
                         [rounding_call1, rounding_call2, rounding_call3]))"
proof -
  have a: "rounding_P3 ! 0 ! 3 = 0" and b: "rounding_P3 ! 3 ! 0 = 1"
    by (simp_all add: rounding_P3_def)
  have "\<not> symmetric_mat 9 rounding_P3"
  proof
    assume "symmetric_mat 9 rounding_P3"
    then have "rounding_P3 ! 0 ! 3 = rounding_P3 ! 3 ! 0"
      by (rule symmetric_matD) simp_all
    then show False
      using a b by simp
  qed
  then show ?thesis
    using a b symmetric_I_3x3 by (simp add: rounding_run3)
qed

text \<open>
  Claim C7. \<open>resetIntegration\<close> sets the accumulated covariance \<open>P\<close> to zero, leaves
  \<open>measurementCovariance_\<close> unchanged and resets the base-class sub-object. With the reset
  of the base class as the spec describes it, the tangent state and the bias-sensitivity
  Jacobians are zero afterwards and the bias is unchanged.
\<close>

theorem resetIntegration_zeroes:
  "(let s' = resetIntegration
               (lib\<lparr> PreintegrationBase_resetIntegration :=
                       PreintegrationBase_resetIntegration_spec \<rparr>) s
    in tangentState (base s') = replicate 9 0 \<and>
       preintMeasCov s' = replicate 9 (replicate 9 0) \<and>
       biasJacobians (base s') = replicate 9 (replicate 6 0) \<and>
       biasHat (base s') = biasHat (base s) \<and>
       measurementCovariance s' = measurementCovariance s) \<and>
   base (resetIntegration lib0 s0) = PreintegrationBase_resetIntegration lib0 (base s0) \<and>
   preintMeasCov (resetIntegration lib0 s0) = replicate 9 (replicate 9 0) \<and>
   measurementCovariance (resetIntegration lib0 s0) = measurementCovariance s0"
  by (simp add: resetIntegration_def PreintegrationBase_resetIntegration_spec_def Let_def
      setZero_def mk_mat_def mk_vec_def map_replicate_const)

text \<open>
  Claim C8, as amended. \<open>integrateMeasurement\<close> does not check \<open>deltaT\<close>. For
  \<open>deltaT \<le> 0\<close> the call goes through like any other, with the value as given: the
  rotation increment is \<open>correctedOmega * deltaT\<close>, both base-class updates receive
  \<open>deltaT\<close>, and the covariance becomes \<open>F * P * F\<^sup>T + Q * deltaT\<close>.
\<close>

theorem nonpositive_deltaT_is_integrated:
  assumes "dt \<le> 0" "i < 9" "j < 9"
  shows "(let l = integrate_body lib a w dt sensor s;
              s' = fst (integrateMeasurement lib a w dt sensor F_test G_test s)
          in theta_incr l = vec_scale 3 (correctedOmega l) dt \<and>
             base s' =
               updatePreintegratedMeasurements lib (correctedAcc l) (Rincr l) dt
                 (updatePreintegratedJacobians lib (correctedAcc l) (Jr_theta_incr l) (Rincr l)
                    dt (base s)) \<and>
             preintMeasCov s' ! i ! j =
               (\<Sum>m<9. (\<Sum>k<9. F l ! i ! k * preintMeasCov s ! k ! m) * F l ! j ! m)
               + measurementCovariance s ! i ! j * dt)"
proof -
  have "theta_incr (integrate_body lib a w dt sensor s) =
        vec_scale 3 (correctedOmega (integrate_body lib a w dt sensor s)) dt"
    by (simp add: integrate_body_def Let_def split_def)
  moreover have "base (fst (integrateMeasurement lib a w dt sensor F_test G_test s)) =
      updatePreintegratedMeasurements lib (correctedAcc (integrate_body lib a w dt sensor s))
        (Rincr (integrate_body lib a w dt sensor s)) dt
        (updatePreintegratedJacobians lib (correctedAcc (integrate_body lib a w dt sensor s))
           (Jr_theta_incr (integrate_body lib a w dt sensor s))
           (Rincr (integrate_body lib a w dt sensor s)) dt (base s))"
    by (simp add: integrateMeasurement_def integrate_body_def Let_def split_def)
  ultimately show ?thesis
    using assms(2,3) by (simp add: Let_def integrate_preintMeasCov_nth)
qed

text \<open>
  The theorem for \<open>deltaT = -1\<close> on the constructed object of the example: the
  coefficient of the covariance at row 4, column 4 becomes \<open>-1\<close>.
\<close>

theorem nonpositive_deltaT_is_integrated_witness:
  "(- 1 :: real) \<le> 0 \<and> (4::nat) < 9 \<and>
   theta_incr (integrate_body still_lib [0, 0, 0] [0, 0, 0] (- 1) None example_start) =
     [0, 0, 0] \<and>
   preintMeasCov
     (fst (integrateMeasurement still_lib [0, 0, 0] [0, 0, 0] (- 1) None None None example_start))
     ! 4 ! 4 = - 1"
proof -
  have a: "(- 1 :: real) \<le> 0" and b: "(4::nat) < 9"
    by simp_all
  have P0: "preintMeasCov example_start = setZero 9 9"
    by (simp add: example_start_def ctor_preintMeasCov)
  from nonpositive_deltaT_is_integrated [OF a b b, where lib = still_lib and a = "[0, 0, 0]"
      and w = "[0, 0, 0]" and sensor = None and s = example_start and F_test = None
      and G_test = None]
  have e1: "theta_incr (integrate_body still_lib [0, 0, 0] [0, 0, 0] (- 1) None example_start) =
      vec_scale 3
        (correctedOmega (integrate_body still_lib [0, 0, 0] [0, 0, 0] (- 1) None example_start))
        (- 1)"
    and e2: "preintMeasCov
      (fst (integrateMeasurement still_lib [0, 0, 0] [0, 0, 0] (- 1) None None None
              example_start)) ! 4 ! 4 =
      (\<Sum>m<9. (\<Sum>k<9. F (integrate_body still_lib [0, 0, 0] [0, 0, 0] (- 1) None
                               example_start) ! 4 ! k
                          * preintMeasCov example_start ! k ! m)
                * F (integrate_body still_lib [0, 0, 0] [0, 0, 0] (- 1) None example_start) ! 4 ! m)
      + measurementCovariance example_start ! 4 ! 4 * (- 1)"
    unfolding Let_def by blast+
  have "correctedOmega (integrate_body still_lib [0, 0, 0] [0, 0, 0] (- 1) None example_start) =
      [0, 0, 0]"
    by (simp add: integrate_body_def Let_def still_lib_def)
  then have "theta_incr (integrate_body still_lib [0, 0, 0] [0, 0, 0] (- 1) None example_start) =
      [0, 0, 0]"
    unfolding e1 by (simp add: vec_scale_def mk_vec_def upt_0_3)
  moreover have "preintMeasCov
      (fst (integrateMeasurement still_lib [0, 0, 0] [0, 0, 0] (- 1) None None None
              example_start)) ! 4 ! 4 = - 1"
    unfolding e2
    by (simp add: P0 nth_setZero example_start_measurementCovariance example_Q_def sum_lt_9)
  ultimately show ?thesis
    by simp
qed

text \<open>
  Claim C8 as stated fails: on the constructed object of the example a call with
  \<open>deltaT = -1\<close> returns, having made both base-class updates, and leaves the covariance
  \<open>Q * (-1)\<close>, whose trace is \<open>-9\<close>.
\<close>

theorem nonpositive_deltaT_counterexample:
  "fst (integrateMeasurement still_lib [0, 0, 0] [0, 0, 0] (- 1) None None None example_start) =
     \<lparr> base = [''updatePreintegratedJacobians'', ''updatePreintegratedMeasurements''],
       measurementCovariance = example_Q,
       preintMeasCov = mat_scale 9 9 example_Q (- 1) \<rparr> \<and>
   trace9 (mat_scale 9 9 example_Q (- 1)) = - 9"
proof -
  have P0: "preintMeasCov example_start = setZero 9 9"
    by (simp add: example_start_def ctor_preintMeasCov)
  have "preintMeasCov
          (fst (integrateMeasurement still_lib [0, 0, 0] [0, 0, 0] (- 1) None None None
                  example_start)) = mat_scale 9 9 example_Q (- 1)"
    unfolding integrate_preintMeasCov still_lib_F P0 example_start_measurementCovariance
    by (simp add: example_Q_def mat_eval)
  moreover have "base (fst (integrateMeasurement still_lib [0, 0, 0] [0, 0, 0] (- 1) None None
      None example_start)) = [''updatePreintegratedJacobians'', ''updatePreintegratedMeasurements'']"
    by (simp add: integrateMeasurement_def integrate_body_def Let_def still_lib_def
        example_start_def PreintegratedMeasurements_ctor_def)
  moreover have "measurementCovariance (fst (integrateMeasurement still_lib [0, 0, 0] [0, 0, 0]
      (- 1) None None None example_start)) = example_Q"
    by (simp add: integrateMeasurement_def Let_def example_start_measurementCovariance)
  moreover have "trace9 example_Q = 9"
    by (simp add: example_Q_def trace9_def sum_lt_9)
  then have "trace9 (mat_scale 9 9 example_Q (- 1)) = - 9"
    by (simp add: trace9_mat_scale)
  ultimately show ?thesis
    by (simp add: PreintegratedMeasurements.equality)
qed

text \<open>
  Claim C10. The object after \<open>integrateMeasurement\<close> is the same whether or not \<open>F_test\<close>
  and \<open>G_test\<close> are supplied. What the call writes to them does not depend on what they
  held before, and nothing is written to an output that is not supplied.
\<close>

theorem test_outputs_do_not_affect_state:
  "fst (integrateMeasurement lib a w dt sensor F_test G_test s) =
     fst (integrateMeasurement lib a w dt sensor None None s) \<and>
   fst (snd (integrateMeasurement lib a w dt sensor (Some X) G_test s)) =
     Some (F (integrate_body lib a w dt sensor s)) \<and>
   fst (snd (integrateMeasurement lib a w dt sensor None G_test s)) = None \<and>
   snd (snd (integrateMeasurement lib a w dt sensor F_test (Some X) s)) =
     snd (snd (integrateMeasurement lib a w dt sensor None (Some Y) s)) \<and>
   snd (snd (integrateMeasurement lib a w dt sensor F_test None s)) = None"
  by (simp add: integrateMeasurement_def Let_def)

end
